theory Spec2Isabelle
  imports Complex_Main "HOL-Library.AList"
begin

chapter \<open>The model\<close>

section \<open>JavaScript strings\<close>

text \<open>
  A JavaScript string is modelled as a \<^typ>\<open>string\<close>, one \<^typ>\<open>char\<close> per code unit.
  The model covers ASCII text: \<open>toLowerCase\<close> and \<open>toUpperCase\<close> act on the letters
  A-Z and a-z and leave every other character as it is, and the white space of \<open>\s\<close> and
  of \<open>trim\<close> is the ASCII white space (space, tab, line feed, vertical tab, form feed,
  carriage return).
\<close>

definition upper_letters :: string where
  "upper_letters = ''ABCDEFGHIJKLMNOPQRSTUVWXYZ''"

definition lower_letters :: string where
  "lower_letters = ''abcdefghijklmnopqrstuvwxyz''"

definition digit_chars :: string where
  "digit_chars = ''0123456789''"

definition is_digit :: "char \<Rightarrow> bool" where
  "is_digit c = (c \<in> set digit_chars)"

definition is_space :: "char \<Rightarrow> bool" where
  "is_space c = (c \<in> set [CHR '' '', CHR 0x09, CHR 0x0A, CHR 0x0B, CHR 0x0C, CHR 0x0D])"

definition char_toLowerCase :: "char \<Rightarrow> char" where
  "char_toLowerCase c =
     (case map_of (zip upper_letters lower_letters) c of Some l \<Rightarrow> l | None \<Rightarrow> c)"

definition char_toUpperCase :: "char \<Rightarrow> char" where
  "char_toUpperCase c =
     (case map_of (zip lower_letters upper_letters) c of Some u \<Rightarrow> u | None \<Rightarrow> c)"

definition toLowerCase :: "string \<Rightarrow> string" where
  "toLowerCase s = map char_toLowerCase s"

text \<open>\<open>String.prototype.trim\<close>: white space is removed at both ends.\<close>

definition trim :: "string \<Rightarrow> string" where
  "trim s = rev (dropWhile is_space (rev (dropWhile is_space s)))"

text \<open>\<open>s.startsWith(p)\<close>, and \<open>hay.includes(needle)\<close>: \<open>needle\<close> occurs in \<open>hay\<close> as a
  contiguous run. The empty string occurs in every string.\<close>

fun startsWith :: "string \<Rightarrow> string \<Rightarrow> bool" where
  "startsWith s [] = True"
| "startsWith [] (p # ps) = False"
| "startsWith (c # cs) (p # ps) = (c = p \<and> startsWith cs ps)"

fun js_includes :: "string \<Rightarrow> string \<Rightarrow> bool" where
  "js_includes [] needle = (needle = [])"
| "js_includes (h # hs) needle = (startsWith (h # hs) needle \<or> js_includes hs needle)"

text \<open>\<open>s.split(d)\<close> for a one-character separator: the pieces between the separators,
  always at least one piece (\<open>''''.split(' ')\<close> is \<open>['''']\<close>).\<close>

fun split_on :: "char \<Rightarrow> string \<Rightarrow> string list" where
  "split_on d [] = [[]]"
| "split_on d (c # cs) =
     (if c = d then [] # split_on d cs
      else (case split_on d cs of [] \<Rightarrow> [[c]] | w # ws \<Rightarrow> (c # w) # ws))"

text \<open>\<open>s.replace(/\s+/g, ' ')\<close>: every maximal run of white space becomes one space.\<close>

fun collapse_whitespace :: "string \<Rightarrow> string" where
  "collapse_whitespace [] = []"
| "collapse_whitespace [c] = (if is_space c then '' '' else [c])"
| "collapse_whitespace (c # d # ds) =
     (if is_space c
      then (if is_space d then collapse_whitespace (d # ds)
            else CHR '' '' # collapse_whitespace (d # ds))
      else c # collapse_whitespace (d # ds))"


section \<open>The data model (types/language-model.d.ts)\<close>

text \<open>
  \<open>DetectedFormField\<close> and \<open>GeneratedAnswer\<close>. The \<open>element\<close> of a field is a reference
  to a node of the page: it is modelled as the node's handle, a natural number, and the
  node itself lives in the store of the document. The field \<open>type\<close> of the source is
  \<open>ftype\<close> here. An optional member is an \<^typ>\<open>'a option\<close>.
\<close>

type_synonym node = nat

record DetectedFormField =
  element :: node
  label :: string
  ftype :: string
  required :: bool
  placeholder :: "string option"
  maxLength :: "int option"

record GeneratedAnswer =
  fieldLabel :: string
  fieldType :: string
  answer :: string
  confidence :: rat


section \<open>The answer matcher (FieldInjector.findMatchingField)\<close>

text \<open>\<open>normalizeLabel\<close>: lower case, then \<open>replace(/[^a-z0-9\s]/g, '')\<close>, then
  \<open>replace(/\s+/g, ' ')\<close>, then \<open>trim\<close>.\<close>

definition keeps_normalized :: "char \<Rightarrow> bool" where
  "keeps_normalized c = (c \<in> set lower_letters \<or> is_digit c \<or> is_space c)"

definition normalizeLabel :: "string \<Rightarrow> string" where
  "normalizeLabel l = trim (collapse_whitespace (filter keeps_normalized (toLowerCase l)))"

definition stopWords :: "string list" where
  "stopWords = [''the'', ''a'', ''an'', ''and'', ''or'', ''but'', ''in'', ''on'', ''at'', ''to'',
     ''for'', ''of'', ''with'', ''by'', ''your'', ''you'', ''enter'', ''please'']"

definition extractKeywords :: "string \<Rightarrow> string list" where
  "extractKeywords t =
     filter (\<lambda>w. length w > 2 \<and> w \<notin> set stopWords) (split_on CHR '' '' t)"

text \<open>The inner loop of \<open>calculateMatchScore\<close> stops at the first \<open>keyword2\<close> that matches
  \<open>keyword1\<close>, so each \<open>keyword1\<close> counts at most once.\<close>

definition keywords_match :: "string \<Rightarrow> string \<Rightarrow> bool" where
  "keywords_match k1 k2 = (k1 = k2 \<or> js_includes k1 k2 \<or> js_includes k2 k1)"

fun count_matches :: "string list \<Rightarrow> string list \<Rightarrow> nat" where
  "count_matches [] keywords2 = 0"
| "count_matches (k1 # ks) keywords2 =
     (if list_ex (keywords_match k1) keywords2 then 1 else 0) + count_matches ks keywords2"

text \<open>The quotient is a JavaScript number; it is modelled as the exact rational. Both
  agree on every comparison the matcher makes as long as a label has fewer than \<open>2^26\<close>
  keywords.\<close>

definition calculateMatchScore :: "string list \<Rightarrow> string list \<Rightarrow> rat" where
  "calculateMatchScore keywords1 keywords2 =
     (if length keywords1 = 0 \<or> length keywords2 = 0 then 0
      else of_nat (count_matches keywords1 keywords2) /
           of_nat (max (length keywords1) (length keywords2)))"

text \<open>The third loop of \<open>findMatchingField\<close>, with its variables \<open>bestMatch\<close> and
  \<open>bestScore\<close>.\<close>

fun fuzzy_loop ::
  "string list \<Rightarrow> DetectedFormField list \<Rightarrow> DetectedFormField option \<Rightarrow> rat \<Rightarrow>
   DetectedFormField option" where
  "fuzzy_loop answerKeywords [] bestMatch bestScore = bestMatch"
| "fuzzy_loop answerKeywords (field # rest) bestMatch bestScore =
     (let fieldKeywords = extractKeywords (normalizeLabel (label field));
          score = calculateMatchScore answerKeywords fieldKeywords
      in if score > bestScore \<and> score > 1 / 2
         then fuzzy_loop answerKeywords rest (Some field) score
         else fuzzy_loop answerKeywords rest bestMatch bestScore)"

definition findMatchingField ::
  "string \<Rightarrow> DetectedFormField list \<Rightarrow> DetectedFormField option" where
  "findMatchingField answerLabel formFields =
     (let normalizedAnswerLabel = normalizeLabel answerLabel in
      case find (\<lambda>field. normalizeLabel (label field) = normalizedAnswerLabel) formFields of
        Some field \<Rightarrow> Some field
      | None \<Rightarrow>
         (case find (\<lambda>field.
                  js_includes (normalizeLabel (label field)) normalizedAnswerLabel \<or>
                  js_includes normalizedAnswerLabel (normalizeLabel (label field))) formFields of
            Some field \<Rightarrow> Some field
          | None \<Rightarrow> fuzzy_loop (extractKeywords normalizedAnswerLabel) formFields None 0))"


section \<open>JavaScript numbers and dates\<close>

text \<open>
  A JavaScript number is an IEEE double. The model keeps a finite number as an exact
  decimal \<open>m * 10^e\<close>, so parsing, comparison and printing are exact; the two agree
  for decimal numerals of at most 15 significant digits, which no double rounds.
\<close>

datatype js_number = NaN | PosInfinity | NegInfinity | Finite int int

definition digit_value :: "char \<Rightarrow> int" where
  "digit_value c =
     (case map_of (zip digit_chars [0, 1, 2, 3, 4, 5, 6, 7, 8, 9]) c of
        Some v \<Rightarrow> v | None \<Rightarrow> 0)"

definition digits_value :: "string \<Rightarrow> int" where
  "digits_value ds = foldl (\<lambda>acc c. 10 * acc + digit_value c) 0 ds"

definition read_sign :: "string \<Rightarrow> int \<times> string" where
  "read_sign s = (case s of [] \<Rightarrow> (1, [])
     | c # r \<Rightarrow> if c = CHR ''-'' then (-1, r) else if c = CHR ''+'' then (1, r) else (1, s))"

text \<open>The exponent part \<open>e\<close>, sign, digits of a numeral; it is read only when it has a
  digit.\<close>

definition exponent_part :: "string \<Rightarrow> int" where
  "exponent_part s = (case s of [] \<Rightarrow> 0
     | c # r \<Rightarrow>
        if c = CHR ''e'' \<or> c = CHR ''E''
        then (let (sg, r') = read_sign r; ds = takeWhile is_digit r'
              in if ds = [] then 0 else sg * digits_value ds)
        else 0)"

text \<open>\<open>parseFloat\<close>: leading white space, a sign, then \<open>Infinity\<close> or the longest decimal
  numeral; \<open>NaN\<close> when there is none.\<close>

definition parseFloat :: "string \<Rightarrow> js_number" where
  "parseFloat s =
     (let (sg, s2) = read_sign (dropWhile is_space s) in
      if startsWith s2 ''Infinity'' then (if sg < 0 then NegInfinity else PosInfinity)
      else
        let ip = takeWhile is_digit s2; r1 = dropWhile is_digit s2;
            fp = (case r1 of [] \<Rightarrow> []
                  | c # r \<Rightarrow> if c = CHR ''.'' then takeWhile is_digit r else []);
            r2 = (case r1 of [] \<Rightarrow> []
                  | c # r \<Rightarrow> if c = CHR ''.'' then dropWhile is_digit r else r1)
        in if ip = [] \<and> fp = [] then NaN
           else Finite (sg * digits_value (ip @ fp)) (exponent_part r2 - int (length fp)))"

text \<open>\<open>a < b\<close> and \<open>a > b\<close> on numbers; every comparison with \<open>NaN\<close> is false.\<close>

fun number_less :: "js_number \<Rightarrow> js_number \<Rightarrow> bool" where
  "number_less NaN b = False"
| "number_less a NaN = False"
| "number_less PosInfinity b = False"
| "number_less a NegInfinity = False"
| "number_less NegInfinity b = True"
| "number_less a PosInfinity = True"
| "number_less (Finite m e) (Finite m' e') =
     (let l = min e e' in m * 10 ^ nat (e - l) < m' * 10 ^ nat (e' - l))"

definition number_greater :: "js_number \<Rightarrow> js_number \<Rightarrow> bool" where
  "number_greater a b = number_less b a"

text \<open>The decimal digits of a number that is not negative.\<close>

function int_digits :: "int \<Rightarrow> string" where
  "int_digits n =
     (if n < 10 then [digit_chars ! nat n]
      else int_digits (n div 10) @ [digit_chars ! nat (n mod 10)])"
  by pat_completeness auto

termination
  by (relation "measure nat") auto

text \<open>\<open>Number.prototype.toString\<close> (radix 10): with \<open>s\<close> the significant digits, \<open>k\<close> their
  number and \<open>n\<close> the position of the decimal point after the first of them, the number
  is printed without exponent for \<open>-6 < n \<le> 21\<close> and with one otherwise.\<close>

definition number_toString :: "js_number \<Rightarrow> string" where
  "number_toString x =
     (case x of
        NaN \<Rightarrow> ''NaN''
      | PosInfinity \<Rightarrow> ''Infinity''
      | NegInfinity \<Rightarrow> ''-Infinity''
      | Finite m e \<Rightarrow>
          if m = 0 then ''0''
          else
            let ds = int_digits \<bar>m\<bar>;
                s = rev (dropWhile (\<lambda>c. c = CHR ''0'') (rev ds));
                k = int (length s);
                n = int (length ds) + e;
                body =
                  (if k \<le> n \<and> n \<le> 21 then s @ replicate (nat (n - k)) CHR ''0''
                   else if 0 < n \<and> n \<le> 21 then take (nat n) s @ ''.'' @ drop (nat n) s
                   else if -6 < n \<and> n \<le> 0 then ''0.'' @ replicate (nat (- n)) CHR ''0'' @ s
                   else
                     (if k = 1 then s else take 1 s @ ''.'' @ drop 1 s) @ ''e'' @
                     (if n - 1 < 0 then ''-'' else ''+'') @ int_digits \<bar>n - 1\<bar>)
            in (if m < 0 then ''-'' @ body else body))"

text \<open>\<open>content.match(/\d+(\.\d+)?/)\<close>: the first run of digits, with a fraction when a
  point and a digit follow it; \<open>None\<close> when the content has no digit.\<close>

definition match_number :: "string \<Rightarrow> string option" where
  "match_number content =
     (let r = dropWhile (\<lambda>c. \<not> is_digit c) content in
      if r = [] then None
      else
        let ip = takeWhile is_digit r; r1 = dropWhile is_digit r in
        (case r1 of
           [] \<Rightarrow> Some ip
         | c # r2 \<Rightarrow>
             if c = CHR ''.'' \<and> takeWhile is_digit r2 \<noteq> []
             then Some (ip @ ''.'' @ takeWhile is_digit r2)
             else Some ip))"

text \<open>A time value is the number of milliseconds since 1970-01-01T00:00:00Z. The civil
  date of a day number, and back, in the proleptic Gregorian calendar.\<close>

definition civil_from_days :: "int \<Rightarrow> int \<times> int \<times> int" where
  "civil_from_days z0 =
     (let z = z0 + 719468;
          era = z div 146097;
          doe = z - era * 146097;
          yoe = (doe - doe div 1460 + doe div 36524 - doe div 146096) div 365;
          y = yoe + era * 400;
          doy = doe - (365 * yoe + yoe div 4 - yoe div 100);
          mp = (5 * doy + 2) div 153;
          d = doy - (153 * mp + 2) div 5 + 1;
          m = (if mp < 10 then mp + 3 else mp - 9)
      in (if m \<le> 2 then y + 1 else y, m, d))"

definition days_from_civil :: "int \<Rightarrow> int \<Rightarrow> int \<Rightarrow> int" where
  "days_from_civil y0 m d =
     (let y = (if m \<le> 2 then y0 - 1 else y0);
          era = y div 400;
          yoe = y - era * 400;
          mp = (m + 9) mod 12;
          doy = (153 * mp + 2) div 5 + d - 1;
          doe = yoe * 365 + yoe div 4 - yoe div 100 + doy
      in era * 146097 + doe - 719468)"

text \<open>\<open>k\<close> decimal digits of \<open>n\<close>, padded with zeros on the left.\<close>

fun pad_digits :: "nat \<Rightarrow> int \<Rightarrow> string" where
  "pad_digits 0 n = []"
| "pad_digits (Suc k) n = pad_digits k (n div 10) @ [digit_chars ! nat (n mod 10)]"

text \<open>\<open>Date.prototype.toISOString\<close>: the UTC date and time of the time value, as
  \<open>YYYY-MM-DDTHH:mm:ss.sssZ\<close>; a year outside 0..9999 is written with a sign and six
  digits.\<close>

definition toISOString :: "int \<Rightarrow> string" where
  "toISOString ms =
     (let days = ms div 86400000;
          t = ms mod 86400000;
          (y, m, d) = civil_from_days days;
          year = (if 0 \<le> y \<and> y \<le> 9999 then pad_digits 4 y
                  else (if y < 0 then ''-'' else ''+'') @ pad_digits 6 \<bar>y\<bar>)
      in year @ ''-'' @ pad_digits 2 m @ ''-'' @ pad_digits 2 d @ ''T'' @
         pad_digits 2 (t div 3600000) @ '':'' @ pad_digits 2 (t div 60000 mod 60) @ '':'' @
         pad_digits 2 (t div 1000 mod 60) @ ''.'' @ pad_digits 3 (t mod 1000) @ ''Z'')"

text \<open>\<open>dateStr.replace(/\b(on|at|in|the|of|by)\b/gi, '')\<close>. A match starts where the
  character before is not a word character, is one of the six words in any letter case,
  and ends where the character after is not a word character. \<open>prev\<close> tells whether the
  character before is a word character, \<open>skip\<close> counts the characters of a match that
  are still to be removed.\<close>

definition is_word_char :: "char \<Rightarrow> bool" where
  "is_word_char c =
     (c \<in> set lower_letters \<or> c \<in> set upper_letters \<or> is_digit c \<or> c = CHR ''_'')"

definition connectives :: "string list" where
  "connectives = [''on'', ''at'', ''in'', ''the'', ''of'', ''by'']"

definition connective_at :: "string \<Rightarrow> string option" where
  "connective_at s =
     find (\<lambda>w. toLowerCase (take (length w) s) = w \<and>
               (case drop (length w) s of [] \<Rightarrow> True | d # r \<Rightarrow> \<not> is_word_char d))
          connectives"

fun strip_connectives :: "bool \<Rightarrow> nat \<Rightarrow> string \<Rightarrow> string" where
  "strip_connectives prev skip [] = []"
| "strip_connectives prev (Suc skip) (c # cs) = strip_connectives True skip cs"
| "strip_connectives prev 0 (c # cs) =
     (if prev then c # strip_connectives (is_word_char c) 0 cs
      else (case connective_at (c # cs) of
              Some w \<Rightarrow> strip_connectives True (length w - 1) cs
            | None \<Rightarrow> c # strip_connectives (is_word_char c) 0 cs))"

text \<open>\<open>parseDate\<close>. The constructor \<open>new Date(string)\<close> belongs to the JavaScript engine:
  \<open>date_of\<close> gives the time value it builds from a string, \<open>None\<close> for an invalid date.\<close>

definition parseDate :: "(string \<Rightarrow> int option) \<Rightarrow> string \<Rightarrow> string option" where
  "parseDate date_of dateStr =
     (let cleaned = trim (strip_connectives False 0 dateStr) in
      case date_of cleaned of
        Some t \<Rightarrow> Some (hd (split_on CHR ''T'' (toISOString t)))
      | None \<Rightarrow> None)"

text \<open>
  Modelled engine behaviour: a date written as day, English month name and year (\<open>5
  March 2024\<close>) is not in the ISO format, and the engine reads it as midnight of that
  day in the local time zone. \<open>tz\<close> is the offset of local time from UTC in minutes,
  positive east of Greenwich. Any other string is an invalid date in this model.
\<close>

definition month_names :: "string list" where
  "month_names = [''january'', ''february'', ''march'', ''april'', ''may'', ''june'', ''july'',
     ''august'', ''september'', ''october'', ''november'', ''december'']"

definition month_number :: "string \<Rightarrow> int option" where
  "month_number w =
     map_of (zip month_names [1, 2, 3, 4, 5, 6, 7, 8, 9, 10, 11, 12]) (toLowerCase w)"

definition all_digits :: "string \<Rightarrow> bool" where
  "all_digits s = (s \<noteq> [] \<and> list_all is_digit s)"

definition local_Date :: "int \<Rightarrow> string \<Rightarrow> int option" where
  "local_Date tz s =
     (case split_on CHR '' '' s of
        [d, mo, y] \<Rightarrow>
          (case month_number mo of
             Some m \<Rightarrow>
               if all_digits d \<and> all_digits y \<and> 1 \<le> digits_value d \<and> digits_value d \<le> 31
               then Some (days_from_civil (digits_value y) m (digits_value d) * 86400000
                          - tz * 60000)
               else None
           | None \<Rightarrow> None)
      | _ \<Rightarrow> None)"


section \<open>The page\<close>

text \<open>
  The injector and the detector work on the live document of the host page. The model
  keeps what they read and write of it. A node is one of the three kinds of element that
  \<open>querySelectorAll('input, textarea, select')\<close> returns; \<open>dom_element\<close> holds its own
  properties, attributes and styles. \<open>el_type\<close> is the \<open>type\<close> property of an
  \<open>input\<close>, which the browser keeps to the keywords of the HTML standard (\<open>text\<close>,
  \<open>hidden\<close>, \<open>checkbox\<close> and so on). Writing a property stores the string or flag
  that is written; what a browser does to a value on top of that (its sanitisation for
  the input type) is not modelled.
\<close>

datatype tag = INPUT | TEXTAREA | SELECT

record option_element =
  opt_textContent :: string
  opt_value :: string
  opt_selected :: bool

record dom_element =
  el_tagName :: tag
  el_type :: string
  el_id :: string
  el_name :: string
  el_value :: string
  el_checked :: bool
  el_disabled :: bool
  el_readOnly :: bool
  el_required :: bool
  el_multiple :: bool
  el_maxLength :: int
  el_min :: string
  el_max :: string
  el_pattern :: string
  el_placeholder :: string
  el_title :: string
  el_aria_label :: "string option"
  el_aria_labelledby :: "string option"
  el_aria_required :: "string option"
  el_options :: "option_element list"
  el_display :: string
  el_visibility :: string
  el_border :: string
  el_boxShadow :: string

text \<open>
  What the document holds around a node, as the queries of the source see it. A query
  whose selector is built from a string of the page (\<open>label[for="..."]\<close> from an id,
  \<open>input[type="radio"][name="..."]\<close> from a name) throws a \<open>SyntaxError\<close> when that
  string breaks the selector: its outcome is a \<open>query\<close>.
  \<^item> \<open>in_form\<close>: \<open>closest('form')\<close> finds a form;
  \<^item> \<open>label_for\<close>: the text of the first \<open>label[for=id]\<close> of the document;
  \<^item> \<open>closest_label\<close>: the text of \<open>closest('label')\<close>;
  \<^item> \<open>labelledby_text\<close>: the text of the element that \<open>aria-labelledby\<close> names;
  \<^item> \<open>previous_siblings\<close>: the texts of the element siblings before it, nearest first;
  \<^item> \<open>parent_text\<close>: the text of the parent element;
  \<^item> \<open>next_text\<close>: the text of the next sibling when that is a text node;
  \<^item> \<open>radio_group\<close>: the radio inputs of the same name in the owning form, or in the
    document for a radio without a form, as \<open>injectRadio\<close> queries them;
  \<^item> \<open>radio_peers\<close>: the other buttons of its radio button group, which the browser
    unchecks when the button is checked.
\<close>

datatype 'a query = Throws | Returns 'a

record dom_around =
  in_form :: bool
  label_for :: "string option query"
  closest_label :: "string option"
  labelledby_text :: "string option"
  previous_siblings :: "string list"
  parent_text :: "string option"
  next_text :: "string option"
  radio_group :: "node list query"
  radio_peers :: "node list"

text \<open>A pending \<open>setTimeout\<close> callback of \<open>addSuccessHighlight\<close>: when it is due, and the
  styles it puts back.\<close>

record timer =
  due :: int
  target :: node
  originalBorder :: string
  originalBoxShadow :: string

datatype dom_call = Focus node | DispatchEvent node string

text \<open>
  The state the two classes work on: the elements and what is around them, the forms of
  the document (for each form, in document order, its \<open>input, textarea, select\<close>
  descendants) and all such elements of the document; the clock in milliseconds with the
  pending timers; the \<open>focus\<close> and \<open>dispatchEvent\<close> calls made so far, oldest first; the
  summaries shown by \<open>showInjectionFeedback\<close> (all filled, successes, attempts); the
  \<open>Date\<close> constructor of the engine; and the map \<open>injectedFields\<close> of the injector, in
  insertion order.
\<close>

record world =
  elems :: "node \<Rightarrow> dom_element"
  around :: "node \<Rightarrow> dom_around"
  forms :: "node list list"
  allInputs :: "node list"
  clock :: int
  timers :: "timer list"
  calls :: "dom_call list"
  notifications :: "(bool \<times> nat \<times> nat) list"
  engine_Date :: "string \<Rightarrow> int option"
  injectedFields :: "(node \<times> string) list"

definition update_element :: "node \<Rightarrow> (dom_element \<Rightarrow> dom_element) \<Rightarrow> world \<Rightarrow> world" where
  "update_element n f w = w\<lparr>elems := (elems w)(n := f (elems w n))\<rparr>"

text \<open>Properties that only some of the three interfaces have: \<open>type\<close> is computed for a
  \<open>textarea\<close> and a \<open>select\<close>; a \<open>select\<close> has no \<open>maxLength\<close>, \<open>placeholder\<close> or
  \<open>readOnly\<close>; only an \<open>input\<close> has \<open>pattern\<close>, \<open>min\<close> and \<open>max\<close>. A missing property reads
  as \<open>undefined\<close>, which is \<open>None\<close> or, where the source only tests it for truth, the empty
  string.\<close>

definition prop_type :: "dom_element \<Rightarrow> string" where
  "prop_type e =
     (case el_tagName e of
        INPUT \<Rightarrow> el_type e
      | TEXTAREA \<Rightarrow> ''textarea''
      | SELECT \<Rightarrow> (if el_multiple e then ''select-multiple'' else ''select-one''))"

definition prop_maxLength :: "dom_element \<Rightarrow> int option" where
  "prop_maxLength e = (if el_tagName e = SELECT then None else Some (el_maxLength e))"

definition prop_placeholder :: "dom_element \<Rightarrow> string" where
  "prop_placeholder e = (if el_tagName e = SELECT then [] else el_placeholder e)"

definition prop_pattern :: "dom_element \<Rightarrow> string" where
  "prop_pattern e = (if el_tagName e = INPUT then el_pattern e else [])"

definition prop_min :: "dom_element \<Rightarrow> string" where
  "prop_min e = (if el_tagName e = INPUT then el_min e else [])"

definition prop_max :: "dom_element \<Rightarrow> string" where
  "prop_max e = (if el_tagName e = INPUT then el_max e else [])"

subsection \<open>Time\<close>

text \<open>A due timer puts the saved styles back. \<open>advance d\<close> lets \<open>d\<close> milliseconds pass:
  the timers that are due by then run in the order of their due times, the others stay.
  \<open>settle\<close> lets time pass until no timer is pending.\<close>

definition run_timer :: "timer \<Rightarrow> world \<Rightarrow> world" where
  "run_timer t w =
     update_element (target t)
       (\<lambda>e. e\<lparr>el_border := originalBorder t, el_boxShadow := originalBoxShadow t\<rparr>) w"

definition advance :: "int \<Rightarrow> world \<Rightarrow> world" where
  "advance d w =
     (let now = clock w + d;
          ready = filter (\<lambda>t. due t \<le> now) (timers w);
          waiting = filter (\<lambda>t. \<not> due t \<le> now) (timers w)
      in (fold run_timer (sort_key due ready) w)\<lparr>clock := now, timers := waiting\<rparr>)"

definition settle :: "world \<Rightarrow> world" where
  "settle w = advance (foldr (\<lambda>t m. max (due t - clock w) m) (timers w) 0) w"


section \<open>The field writer (FieldInjector)\<close>

text \<open>
  Every writer of the source runs in a \<open>try\<close> whose \<open>catch\<close> logs and returns false.
  In the model the statements that can throw are the two selector queries of
  \<open>injectRadio\<close> and \<open>findRadioLabel\<close>, and there the result is false with the page
  as it was. No other statement of a writer, of \<open>injectSingleField\<close> or of
  \<open>injectAnswers\<close> throws, so their \<open>catch\<close> branches have no counterpart. The logger
  writes to the console only and is left out here.

  \<open>isElementInteractable\<close> reads the computed \<open>display\<close> and \<open>visibility\<close> and the
  attributes \<open>disabled\<close> and \<open>readonly\<close>, which the flags \<open>el_disabled\<close> and
  \<open>el_readOnly\<close> stand for (the properties of the same names reflect them).
\<close>

definition isElementInteractable :: "dom_element \<Rightarrow> bool" where
  "isElementInteractable e =
     (el_display e \<noteq> ''none'' \<and> el_visibility e \<noteq> ''hidden'' \<and>
      \<not> el_disabled e \<and> \<not> el_readOnly e)"

definition focusElement :: "node \<Rightarrow> world \<Rightarrow> world" where
  "focusElement n w = w\<lparr>calls := calls w @ [Focus n]\<rparr>"

text \<open>\<open>injectTextInput\<close> and \<open>injectTextarea\<close>. For an element without the property,
  \<open>maxLength > 0\<close> is false.\<close>

definition injectTextInput :: "node \<Rightarrow> string \<Rightarrow> world \<Rightarrow> bool \<times> world" where
  "injectTextInput input content w =
     (let finalContent =
            (case prop_maxLength (elems w input) of
               Some maxLen \<Rightarrow>
                 if maxLen > 0 \<and> int (length content) > maxLen
                 then take (nat maxLen) content else content
             | None \<Rightarrow> content)
      in (True, update_element input (\<lambda>e. e\<lparr>el_value := finalContent\<rparr>) w))"

definition injectTextarea :: "node \<Rightarrow> string \<Rightarrow> world \<Rightarrow> bool \<times> world" where
  "injectTextarea textarea content w =
     (let finalContent =
            (case prop_maxLength (elems w textarea) of
               Some maxLen \<Rightarrow>
                 if maxLen > 0 \<and> int (length content) > maxLen
                 then take (nat maxLen) content else content
             | None \<Rightarrow> content)
      in (True, update_element textarea (\<lambda>e. e\<lparr>el_value := finalContent\<rparr>) w))"

text \<open>\<open>injectSelect\<close>: the index of the first option that matches, then
  \<open>option.selected = true\<close>, which in a single select deselects the other options.\<close>

definition option_matches :: "string \<Rightarrow> option_element \<Rightarrow> bool" where
  "option_matches normalizedContent opt =
     (let optionText = trim (toLowerCase (opt_textContent opt));
          optionValue = trim (toLowerCase (opt_value opt))
      in js_includes optionText normalizedContent \<or>
         js_includes normalizedContent optionText \<or>
         optionValue = normalizedContent)"

fun first_index :: "('a \<Rightarrow> bool) \<Rightarrow> 'a list \<Rightarrow> nat option" where
  "first_index P [] = None"
| "first_index P (x # xs) = (if P x then Some 0 else map_option Suc (first_index P xs))"

definition select_option :: "nat \<Rightarrow> dom_element \<Rightarrow> dom_element" where
  "select_option i e =
     e\<lparr>el_options :=
         map (\<lambda>(j, opt). if j = i then opt\<lparr>opt_selected := True\<rparr>
                         else if el_multiple e then opt else opt\<lparr>opt_selected := False\<rparr>)
             (zip [0 ..< length (el_options e)] (el_options e))\<rparr>"

definition injectSelect :: "node \<Rightarrow> string \<Rightarrow> world \<Rightarrow> bool \<times> world" where
  "injectSelect select content w =
     (let normalizedContent = trim (toLowerCase content) in
      case first_index (option_matches normalizedContent) (el_options (elems w select)) of
        Some i \<Rightarrow> (True, update_element select (select_option i) w)
      | None \<Rightarrow> (False, w))"

text \<open>Writing \<open>checked\<close>. Checking a radio button unchecks the other buttons of its
  group.\<close>

definition set_checked :: "node \<Rightarrow> bool \<Rightarrow> world \<Rightarrow> world" where
  "set_checked n b w =
     (let w' = update_element n (\<lambda>e. e\<lparr>el_checked := b\<rparr>) w in
      if b \<and> prop_type (elems w n) = ''radio''
      then fold (\<lambda>p. update_element p (\<lambda>e. e\<lparr>el_checked := False\<rparr>))
                (filter (\<lambda>p. p \<noteq> n) (radio_peers (around w n))) w'
      else w')"

definition injectCheckbox :: "node \<Rightarrow> string \<Rightarrow> world \<Rightarrow> bool \<times> world" where
  "injectCheckbox checkbox content w =
     (let normalizedContent = trim (toLowerCase content);
          shouldCheck =
            (normalizedContent \<in> set [''yes'', ''true'', ''1'', ''checked'', ''on'', ''agree''])
      in (True, set_checked checkbox shouldCheck w))"

text \<open>\<open>findRadioLabel\<close>; the query for the label throws when the id breaks the
  selector.\<close>

definition findRadioLabel :: "node \<Rightarrow> world \<Rightarrow> string query" where
  "findRadioLabel radio w =
     (let e = elems w radio; a = around w radio;
          later =
            (case closest_label a of
               Some t \<Rightarrow> if t \<noteq> [] then trim t
                         else (case next_text a of
                                 Some u \<Rightarrow> if u \<noteq> [] then trim u else el_value e
                               | None \<Rightarrow> el_value e)
             | None \<Rightarrow> (case next_text a of
                          Some u \<Rightarrow> if u \<noteq> [] then trim u else el_value e
                        | None \<Rightarrow> el_value e))
      in if el_id e \<noteq> []
         then (case label_for a of
                 Throws \<Rightarrow> Throws
               | Returns (Some t) \<Rightarrow> if t \<noteq> [] then Returns (trim t) else Returns later
               | Returns None \<Rightarrow> Returns later)
         else Returns later)"

text \<open>The loop of \<open>injectRadio\<close> over the group. An exception leaves the loop, and the
  \<open>catch\<close> of \<open>injectRadio\<close> returns false.\<close>

fun radio_loop :: "node list \<Rightarrow> string \<Rightarrow> world \<Rightarrow> bool \<times> world" where
  "radio_loop [] normalizedContent w = (False, w)"
| "radio_loop (radioButton # rest) normalizedContent w =
     (case findRadioLabel radioButton w of
        Throws \<Rightarrow> (False, w)
      | Returns lbl \<Rightarrow>
          let normalizedLabel = trim (toLowerCase lbl) in
          if js_includes normalizedLabel normalizedContent \<or>
             js_includes normalizedContent normalizedLabel \<or>
             toLowerCase (el_value (elems w radioButton)) = normalizedContent
          then (True, set_checked radioButton True w)
          else radio_loop rest normalizedContent w)"

definition injectRadio :: "node \<Rightarrow> string \<Rightarrow> world \<Rightarrow> bool \<times> world" where
  "injectRadio radio content w =
     (case radio_group (around w radio) of
        Throws \<Rightarrow> (False, w)
      | Returns radioGroup \<Rightarrow> radio_loop radioGroup (trim (toLowerCase content)) w)"

definition injectDate :: "node \<Rightarrow> string \<Rightarrow> world \<Rightarrow> bool \<times> world" where
  "injectDate input content w =
     (case parseDate (engine_Date w) content of
        Some dateString \<Rightarrow>
          if dateString \<noteq> []
          then (True, update_element input (\<lambda>e. e\<lparr>el_value := dateString\<rparr>) w)
          else (False, w)
      | None \<Rightarrow> (False, w))"

definition injectNumber :: "node \<Rightarrow> string \<Rightarrow> world \<Rightarrow> bool \<times> world" where
  "injectNumber input content w =
     (case match_number content of
        Some numberMatch \<Rightarrow>
          let number = parseFloat numberMatch; e = elems w input in
          if prop_min e \<noteq> [] \<and> number_less number (parseFloat (prop_min e)) then (False, w)
          else if prop_max e \<noteq> [] \<and> number_greater number (parseFloat (prop_max e))
          then (False, w)
          else (True, update_element input (\<lambda>e. e\<lparr>el_value := number_toString number\<rparr>) w)
      | None \<Rightarrow> (False, w))"

text \<open>\<open>triggerChangeEvents\<close> dispatches \<open>input\<close>, \<open>change\<close>, \<open>blur\<close> and one more
  \<open>input\<close> event; what the scripts of the page do on them is outside the model.
  \<open>addSuccessHighlight\<close> saves the inline border and shadow, sets the highlight and
  starts the timer that puts the saved styles back after 2000 ms.\<close>

definition triggerChangeEvents :: "node \<Rightarrow> world \<Rightarrow> world" where
  "triggerChangeEvents n w =
     w\<lparr>calls := calls w @ [DispatchEvent n ''input'', DispatchEvent n ''change'',
                            DispatchEvent n ''blur'', DispatchEvent n ''input'']\<rparr>"

definition addSuccessHighlight :: "node \<Rightarrow> world \<Rightarrow> world" where
  "addSuccessHighlight n w =
     (let originalBorder = el_border (elems w n);
          originalBoxShadow = el_boxShadow (elems w n);
          w' = update_element n
                 (\<lambda>e. e\<lparr>el_border := ''2px solid #10b981'',
                         el_boxShadow := ''0 0 0 3px rgba(16, 185, 129, 0.1)''\<rparr>) w
      in w'\<lparr>timers := timers w' @
               [\<lparr>due = clock w' + 2000, target = n, originalBorder = originalBorder,
                 originalBoxShadow = originalBoxShadow\<rparr>]\<rparr>)"

text \<open>The \<open>switch\<close> of \<open>injectSingleField\<close>; \<open>None\<close> is its \<open>default\<close> branch, which
  returns at once.\<close>

definition dispatch_writer ::
  "string \<Rightarrow> node \<Rightarrow> string \<Rightarrow> world \<Rightarrow> (bool \<times> world) option" where
  "dispatch_writer t n content w =
     (if t \<in> set [''text'', ''email'', ''password'', ''phone'', ''url'', ''search'']
      then Some (injectTextInput n content w)
      else if t = ''textarea'' then Some (injectTextarea n content w)
      else if t = ''select-one'' \<or> t = ''select-multiple'' then Some (injectSelect n content w)
      else if t = ''checkbox'' then Some (injectCheckbox n content w)
      else if t = ''radio'' then Some (injectRadio n content w)
      else if t = ''date'' \<or> t = ''datetime'' then Some (injectDate n content w)
      else if t = ''number'' then Some (injectNumber n content w)
      else None)"

text \<open>\<open>injectSingleField\<close>. The \<open>await\<close> of the 100 ms timer lets the clock advance.\<close>

definition injectSingleField :: "DetectedFormField \<Rightarrow> string \<Rightarrow> world \<Rightarrow> bool \<times> world" where
  "injectSingleField field content w =
     (let n = element field in
      if \<not> isElementInteractable (elems w n) then (False, w)
      else
        let w1 = advance 100 (focusElement n w) in
        case dispatch_writer (ftype field) n content w1 of
          None \<Rightarrow> (False, w1)
        | Some (success, w2) \<Rightarrow>
            if success then (True, addSuccessHighlight n (triggerChangeEvents n w2))
            else (False, w2))"

text \<open>\<open>showInjectionFeedback\<close> adds a notification to the page and removes it some
  seconds later; it touches no form field. The model records what the notification
  tells: whether all attempts succeeded, the successes and the attempts.\<close>

definition showInjectionFeedback :: "nat \<Rightarrow> nat \<Rightarrow> world \<Rightarrow> world" where
  "showInjectionFeedback successCount totalAttempts w =
     w\<lparr>notifications := notifications w @
          [(successCount = totalAttempts, successCount, totalAttempts)]\<rparr>"

text \<open>The loop of \<open>injectAnswers\<close> with its counters, and \<open>injectAnswers\<close>.
  \<open>Map.prototype.set\<close> keeps the place of a key that is already there.\<close>

fun inject_loop ::
  "GeneratedAnswer list \<Rightarrow> DetectedFormField list \<Rightarrow> nat \<Rightarrow> nat \<Rightarrow> world \<Rightarrow>
   nat \<times> nat \<times> world" where
  "inject_loop [] formFields successCount totalAttempts w = (successCount, totalAttempts, w)"
| "inject_loop (a # rest) formFields successCount totalAttempts w =
     (case findMatchingField (fieldLabel a) formFields of
        Some matchingField \<Rightarrow>
          (case injectSingleField matchingField (answer a) w of
             (True, w') \<Rightarrow>
               inject_loop rest formFields (successCount + 1) (totalAttempts + 1)
                 (w'\<lparr>injectedFields :=
                       AList.update (element matchingField) (answer a) (injectedFields w')\<rparr>)
           | (False, w') \<Rightarrow>
               inject_loop rest formFields successCount (totalAttempts + 1) w')
      | None \<Rightarrow> inject_loop rest formFields successCount totalAttempts w)"

definition injectAnswers ::
  "GeneratedAnswer list \<Rightarrow> DetectedFormField list \<Rightarrow> world \<Rightarrow> bool \<times> world" where
  "injectAnswers answers formFields w =
     (let (successCount, totalAttempts, w') = inject_loop answers formFields 0 0 w
      in (successCount > 0, showInjectionFeedback successCount totalAttempts w'))"

text \<open>\<open>clearAllInjections\<close>. \<open>selectedIndex = 0\<close> deselects every option and selects the
  first one, when there is one.\<close>

definition set_selectedIndex_0 :: "dom_element \<Rightarrow> dom_element" where
  "set_selectedIndex_0 e =
     e\<lparr>el_options :=
         (case map (\<lambda>opt. opt\<lparr>opt_selected := False\<rparr>) (el_options e) of
            [] \<Rightarrow> []
          | opt # opts \<Rightarrow> opt\<lparr>opt_selected := True\<rparr> # opts)\<rparr>"

definition clear_element :: "node \<Rightarrow> world \<Rightarrow> world" where
  "clear_element n w =
     triggerChangeEvents n
       (case el_tagName (elems w n) of
          INPUT \<Rightarrow> update_element n (\<lambda>e. e\<lparr>el_value := []\<rparr>) w
        | TEXTAREA \<Rightarrow> update_element n (\<lambda>e. e\<lparr>el_value := []\<rparr>) w
        | SELECT \<Rightarrow> update_element n set_selectedIndex_0 w)"

definition clearAllInjections :: "world \<Rightarrow> world" where
  "clearAllInjections w =
     (fold clear_element (map fst (injectedFields w)) w)\<lparr>injectedFields := []\<rparr>"


section \<open>The field scanner (FormFieldDetector)\<close>

text \<open>\<open>shouldSkipField\<close> runs outside every \<open>try\<close>; it reads properties of the element
  and its computed style, which does not throw.\<close>

definition skipNames :: "string list" where
  "skipNames = [''csrf'', ''token'', ''_token'', ''authenticity_token'', ''utf8'', ''_method'',
     ''commit'', ''submit'', ''captcha'', ''recaptcha'', ''g-recaptcha-response'']"

definition shouldSkipField :: "dom_element \<Rightarrow> bool" where
  "shouldSkipField e =
     (if prop_type e = ''hidden'' then True
      else if el_disabled e then True
      else if el_tagName e \<noteq> SELECT \<and> el_readOnly e \<and> prop_type e \<noteq> ''text'' then True
      else if list_ex (\<lambda>skip. js_includes (toLowerCase (el_name e)) skip \<or>
                              js_includes (toLowerCase (el_id e)) skip) skipNames then True
      else if el_display e = ''none'' \<or> el_visibility e = ''hidden'' then True
      else False)"

text \<open>\<open>cleanLabelText\<close>: \<open>trim\<close>, \<open>replace(/\s+/g, ' ')\<close>, \<open>replace(/[*:]+$/, '')\<close>,
  \<open>trim\<close>.\<close>

definition cleanLabelText :: "string \<Rightarrow> string" where
  "cleanLabelText t =
     trim (rev (dropWhile (\<lambda>c. c = CHR ''*'' \<or> c = CHR '':'')
                  (rev (collapse_whitespace (trim t)))))"

text \<open>\<open>formatNameAsLabel\<close>: \<open>replace(/[_-]/g, ' ')\<close>, then a space between a lower case
  letter and the upper case letter after it, then lower case, then the first character
  in upper case (\<open>/^./\<close> does not match a line break).\<close>

fun split_camelCase :: "string \<Rightarrow> string" where
  "split_camelCase (c # d # ds) =
     (if c \<in> set lower_letters \<and> d \<in> set upper_letters
      then c # CHR '' '' # d # split_camelCase ds
      else c # split_camelCase (d # ds))"
| "split_camelCase s = s"

definition formatNameAsLabel :: "string \<Rightarrow> string" where
  "formatNameAsLabel name =
     (case toLowerCase (split_camelCase
             (map (\<lambda>c. if c = CHR ''_'' \<or> c = CHR ''-'' then CHR '' '' else c) name)) of
        [] \<Rightarrow> []
      | c # cs \<Rightarrow> if c = CHR 0x0A \<or> c = CHR 0x0D then c # cs else char_toUpperCase c # cs)"

text \<open>\<open>findNearbyText\<close>: at most three element siblings before the element, then the
  parent. \<open>split(/\s+/)\<close> cuts at every run of white space.\<close>

definition split_whitespace :: "string \<Rightarrow> string list" where
  "split_whitespace t = split_on CHR '' '' (collapse_whitespace t)"

definition findNearbyText :: "dom_around \<Rightarrow> string option" where
  "findNearbyText a =
     (case find (\<lambda>t. t \<noteq> [] \<and> length t > 0 \<and> length t < 100)
             (map trim (take 3 (previous_siblings a))) of
        Some t \<Rightarrow> Some t
      | None \<Rightarrow>
          (case parent_text a of
             Some p \<Rightarrow>
               let parentText = trim p in
               if parentText \<noteq> [] \<and> length parentText < 100 \<and>
                  length (split_whitespace parentText) \<le> 10
               then Some parentText else None
           | None \<Rightarrow> None))"

text \<open>\<open>findFieldLabel\<close>, the eight methods in their order. Only the first one can throw.\<close>

definition label_methods_2_to_8 :: "dom_element \<Rightarrow> dom_around \<Rightarrow> string" where
  "label_methods_2_to_8 e a =
     (case (case closest_label a of Some t \<Rightarrow> if t \<noteq> [] then Some t else None | None \<Rightarrow> None) of
        Some t \<Rightarrow> cleanLabelText t
      | None \<Rightarrow>
     (case (case el_aria_label e of Some t \<Rightarrow> if t \<noteq> [] then Some t else None | None \<Rightarrow> None) of
        Some t \<Rightarrow> cleanLabelText t
      | None \<Rightarrow>
     (case (case el_aria_labelledby e of
              Some l \<Rightarrow> if l \<noteq> []
                        then (case labelledby_text a of
                                Some t \<Rightarrow> if t \<noteq> [] then Some t else None
                              | None \<Rightarrow> None)
                        else None
            | None \<Rightarrow> None) of
        Some t \<Rightarrow> cleanLabelText t
      | None \<Rightarrow>
          if el_title e \<noteq> [] then cleanLabelText (el_title e)
          else if prop_placeholder e \<noteq> [] then cleanLabelText (prop_placeholder e)
          else if el_name e \<noteq> [] then formatNameAsLabel (el_name e)
          else (case findNearbyText a of
                  Some nearbyLabel \<Rightarrow>
                    if nearbyLabel \<noteq> [] then cleanLabelText nearbyLabel
                    else ''Unlabeled field''
                | None \<Rightarrow> ''Unlabeled field''))))"

definition findFieldLabel :: "dom_element \<Rightarrow> dom_around \<Rightarrow> string query" where
  "findFieldLabel e a =
     (if el_id e \<noteq> []
      then (case label_for a of
              Throws \<Rightarrow> Throws
            | Returns (Some t) \<Rightarrow>
                if t \<noteq> [] then Returns (cleanLabelText t)
                else Returns (label_methods_2_to_8 e a)
            | Returns None \<Rightarrow> Returns (label_methods_2_to_8 e a))
      else Returns (label_methods_2_to_8 e a))"

definition typeMapping :: "(string \<times> string) list" where
  "typeMapping = [(''text'', ''text''), (''email'', ''email''), (''password'', ''password''),
     (''tel'', ''phone''), (''url'', ''url''), (''number'', ''number''), (''range'', ''range''),
     (''date'', ''date''), (''datetime-local'', ''datetime''), (''time'', ''time''),
     (''month'', ''month''), (''week'', ''week''), (''color'', ''color''), (''file'', ''file''),
     (''checkbox'', ''checkbox''), (''radio'', ''radio''), (''submit'', ''submit''),
     (''button'', ''button''), (''reset'', ''reset''), (''search'', ''search'')]"

definition getFieldType :: "dom_element \<Rightarrow> string" where
  "getFieldType e =
     (case el_tagName e of
        TEXTAREA \<Rightarrow> ''textarea''
      | SELECT \<Rightarrow> (if el_multiple e then ''select-multiple'' else ''select-one'')
      | INPUT \<Rightarrow>
          (let t = toLowerCase (prop_type e) in
           case map_of typeMapping t of Some m \<Rightarrow> m | None \<Rightarrow> t))"

definition isFieldRequired :: "dom_element \<Rightarrow> dom_around \<Rightarrow> bool query" where
  "isFieldRequired e a =
     (if el_required e then Returns True
      else if el_aria_required e = Some ''true'' then Returns True
      else (case findFieldLabel e a of
              Throws \<Rightarrow> Throws
            | Returns lbl \<Rightarrow>
                Returns (js_includes lbl ''*'' \<or> js_includes (toLowerCase lbl) ''required'')))"

text \<open>\<open>pattern.match(/\{(\d+),?(\d+)?\}/)\<close>: the first place where an opening brace, digits,
  at most one comma, maybe more digits and a closing brace stand; the two groups of
  digits, the second one missing when it matched nothing.\<close>

definition length_hint_here :: "string \<Rightarrow> (string \<times> string option) option" where
  "length_hint_here r =
     (let g1 = takeWhile is_digit r; r1 = dropWhile is_digit r;
          r2 = (case r1 of [] \<Rightarrow> [] | c # cs \<Rightarrow> if c = CHR '','' then cs else r1);
          g2 = takeWhile is_digit r2; r3 = dropWhile is_digit r2
      in if g1 \<noteq> [] \<and> (case r3 of [] \<Rightarrow> False | c # cs \<Rightarrow> c = CHR ''}'')
         then Some (g1, if g2 = [] then None else Some g2)
         else None)"

fun match_length_hint :: "string \<Rightarrow> (string \<times> string option) option" where
  "match_length_hint [] = None"
| "match_length_hint (c # cs) =
     (if c = CHR ''{''
      then (case length_hint_here cs of
              Some groups \<Rightarrow> Some groups
            | None \<Rightarrow> match_length_hint cs)
      else match_length_hint cs)"

definition getMaxLength :: "dom_element \<Rightarrow> int option" where
  "getMaxLength e =
     (if (case prop_maxLength e of Some m \<Rightarrow> m > 0 | None \<Rightarrow> False) then prop_maxLength e
      else if prop_pattern e \<noteq> []
      then (case match_length_hint (prop_pattern e) of
              Some (g1, g2) \<Rightarrow> Some (digits_value (case g2 of Some g \<Rightarrow> g | None \<Rightarrow> g1))
            | None \<Rightarrow> None)
      else None)"

text \<open>\<open>extractFieldInfo\<close>. \<open>extract_try\<close> is the body of its \<open>try\<close>, in the order of the
  source; the \<open>catch\<close> logs a warning and returns \<open>null\<close>. The second component of the
  result tells whether the warning was logged.\<close>

definition extract_try :: "node \<Rightarrow> world \<Rightarrow> DetectedFormField query" where
  "extract_try n w =
     (let e = elems w n; a = around w n in
      case findFieldLabel e a of
        Throws \<Rightarrow> Throws
      | Returns lbl \<Rightarrow>
          let t = getFieldType e in
          (case isFieldRequired e a of
             Throws \<Rightarrow> Throws
           | Returns req \<Rightarrow>
               Returns \<lparr>element = n, label = lbl, ftype = t, required = req,
                        placeholder = (if prop_placeholder e \<noteq> [] then Some (prop_placeholder e)
                                       else None),
                        maxLength = getMaxLength e\<rparr>))"

definition extractFieldInfo :: "node \<Rightarrow> world \<Rightarrow> DetectedFormField option \<times> bool" where
  "extractFieldInfo n w =
     (case extract_try n w of Throws \<Rightarrow> (None, True) | Returns info \<Rightarrow> (Some info, False))"

text \<open>The detector keeps the list \<open>detectedFields\<close>; with it the model keeps the nodes
  for which \<open>Logger.warn\<close> reported an extraction error.\<close>

record detector =
  detectedFields :: "DetectedFormField list"
  warnings :: "node list"

definition processFieldElement :: "world \<Rightarrow> node \<Rightarrow> detector \<Rightarrow> detector" where
  "processFieldElement w n d =
     (if shouldSkipField (elems w n) then d
      else (case extractFieldInfo n w of
              (Some fieldInfo, warned) \<Rightarrow>
                d\<lparr>detectedFields := detectedFields d @ [fieldInfo],
                  warnings := warnings d @ (if warned then [n] else [])\<rparr>
            | (None, warned) \<Rightarrow>
                d\<lparr>warnings := warnings d @ (if warned then [n] else [])\<rparr>))"

definition processFormElements :: "world \<Rightarrow> node list \<Rightarrow> detector \<Rightarrow> detector" where
  "processFormElements w formInputs d = fold (processFieldElement w) formInputs d"

text \<open>The loop of \<open>filterAndDeduplicateFields\<close> with its set \<open>seen\<close> and its list
  \<open>filtered\<close>.\<close>

fun filter_loop ::
  "DetectedFormField list \<Rightarrow> node set \<Rightarrow> DetectedFormField list \<Rightarrow> DetectedFormField list" where
  "filter_loop [] seen filtered = filtered"
| "filter_loop (field # rest) seen filtered =
     (if element field \<in> seen then filter_loop rest seen filtered
      else if toLowerCase (ftype field) \<in> set [''submit'', ''button'', ''reset'', ''image'']
      then filter_loop rest seen filtered
      else filter_loop rest (insert (element field) seen) (filtered @ [field]))"

definition filterAndDeduplicateFields :: "DetectedFormField list \<Rightarrow> DetectedFormField list" where
  "filterAndDeduplicateFields fs = filter_loop fs {} []"

definition detectFields :: "world \<Rightarrow> detector" where
  "detectFields w =
     (let d0 = \<lparr>detectedFields = [], warnings = []\<rparr>;
          d1 = fold (processFormElements w) (forms w) d0;
          d2 = fold (processFieldElement w)
                 (filter (\<lambda>n. \<not> in_form (around w n)) (allInputs w)) d1
      in d2\<lparr>detectedFields := filterAndDeduplicateFields (detectedFields d2)\<rparr>)"


chapter \<open>Notions used in the properties\<close>


section \<open>Elements up to their highlight\<close>

text \<open>An element without its inline border and shadow: two elements with the same
  \<open>unstyled\<close> differ at most in the highlight.\<close>

definition unstyled :: "dom_element \<Rightarrow> dom_element" where
  "unstyled e = e\<lparr>el_border := [], el_boxShadow := []\<rparr>"


section \<open>A number outside the declared range\<close>



section \<open>What the rollback does to an element\<close>

text \<open>What \<open>clearAllInjections\<close> does to one element.\<close>

definition cleared :: "dom_element \<Rightarrow> dom_element" where
  "cleared e =
     (case el_tagName e of
        INPUT \<Rightarrow> e\<lparr>el_value := []\<rparr>
      | TEXTAREA \<Rightarrow> e\<lparr>el_value := []\<rparr>
      | SELECT \<Rightarrow> set_selectedIndex_0 e)"

text \<open>The getter \<open>selectedIndex\<close>: the index of the first selected option, or \<open>-1\<close>.\<close>

definition selectedIndex :: "dom_element \<Rightarrow> int" where
  "selectedIndex e =
     (case first_index opt_selected (el_options e) of Some i \<Rightarrow> int i | None \<Rightarrow> -1)"


section \<open>The outcomes of a batch\<close>

text \<open>What happens to each answer of a batch, in the order of the answers: \<open>None\<close> when
  the matcher finds no field for it, otherwise the result of \<open>injectSingleField\<close> on the
  matched field in the state that the earlier answers have left.\<close>

fun attempt_outcomes ::
  "GeneratedAnswer list \<Rightarrow> DetectedFormField list \<Rightarrow> world \<Rightarrow> bool option list" where
  "attempt_outcomes [] formFields w = []"
| "attempt_outcomes (a # rest) formFields w =
     (case findMatchingField (fieldLabel a) formFields of
        None \<Rightarrow> None # attempt_outcomes rest formFields w
      | Some matchingField \<Rightarrow>
          (let (success, w') = injectSingleField matchingField (answer a) w
           in Some success #
              attempt_outcomes rest formFields
                (if success
                 then w'\<lparr>injectedFields :=
                         AList.update (element matchingField) (answer a) (injectedFields w')\<rparr>
                 else w')))"

definition successes :: "bool option list \<Rightarrow> nat" where
  "successes outs = length (filter (\<lambda>out. out = Some True) outs)"

definition attempts :: "bool option list \<Rightarrow> nat" where
  "attempts outs = length (filter (\<lambda>out. out = Some True \<or> out = Some False) outs)"


section \<open>The visits of a scan\<close>

text \<open>The order in which \<open>detectFields\<close> visits the elements: the fields of each form,
  form after form, then the fields outside every form. \<open>extracted\<close> is what the visit of
  one element adds to the list, and \<open>extraction_fails\<close> tells that its visit ends in the
  \<open>catch\<close> of \<open>extractFieldInfo\<close>.\<close>

definition scan_order :: "world \<Rightarrow> node list" where
  "scan_order w = concat (forms w) @ filter (\<lambda>n. \<not> in_form (around w n)) (allInputs w)"

definition extracted :: "world \<Rightarrow> node \<Rightarrow> DetectedFormField option" where
  "extracted w n =
     (if shouldSkipField (elems w n) then None
      else (case extract_try n w of Throws \<Rightarrow> None | Returns info \<Rightarrow> Some info))"

definition extraction_fails :: "world \<Rightarrow> node \<Rightarrow> bool" where
  "extraction_fails w n = (\<not> shouldSkipField (elems w n) \<and> extract_try n w = Throws)"


section \<open>The matcher as the specification words it\<close>








chapter \<open>Examples\<close>


section \<open>Building blocks\<close>

text \<open>A text input with nothing set and nothing around it, a page made of given
  elements in an engine whose local time is UTC, and a catalog entry.\<close>

definition plain_input :: dom_element where
  "plain_input =
     \<lparr>el_tagName = INPUT, el_type = ''text'', el_id = [], el_name = [], el_value = [],
      el_checked = False, el_disabled = False, el_readOnly = False, el_required = False,
      el_multiple = False, el_maxLength = -1, el_min = [], el_max = [], el_pattern = [],
      el_placeholder = [], el_title = [], el_aria_label = None, el_aria_labelledby = None,
      el_aria_required = None, el_options = [], el_display = ''block'',
      el_visibility = ''visible'', el_border = [], el_boxShadow = []\<rparr>"

definition nothing_around :: dom_around where
  "nothing_around =
     \<lparr>in_form = False, label_for = Returns None, closest_label = None,
      labelledby_text = None, previous_siblings = [], parent_text = None, next_text = None,
      radio_group = Returns [], radio_peers = []\<rparr>"

definition page_of :: "(node \<Rightarrow> dom_element) \<Rightarrow> world" where
  "page_of es =
     \<lparr>elems = es, around = (\<lambda>n. nothing_around), forms = [], allInputs = [], clock = 0,
      timers = [], calls = [], notifications = [], engine_Date = local_Date 0,
      injectedFields = []\<rparr>"

definition field_of :: "node \<Rightarrow> string \<Rightarrow> string \<Rightarrow> DetectedFormField" where
  "field_of n l t =
     \<lparr>element = n, label = l, ftype = t, required = False, placeholder = None,
      maxLength = None\<rparr>"


section \<open>Pages for the writers\<close>




definition berlin_page :: world where
  "berlin_page = (page_of (\<lambda>n. plain_input\<lparr>el_type := ''date''\<rparr>))\<lparr>engine_Date := local_Date 60\<rparr>"


section \<open>A page with injected values\<close>

definition select_element :: dom_element where
  "select_element = plain_input\<lparr>el_tagName := SELECT,
     el_options := [\<lparr>opt_textContent = ''Choose'', opt_value = [], opt_selected = False\<rparr>,
                    \<lparr>opt_textContent = ''Red'', opt_value = ''red'', opt_selected = True\<rparr>]\<rparr>"

definition filled_page :: world where
  "filled_page =
     (page_of (\<lambda>n. if n = 3 then select_element
                     else plain_input\<lparr>el_value := (if n = 2 then ''Jane'' else ''kept'')\<rparr>))
       \<lparr>injectedFields := [(2, ''Jane''), (3, ''Red'')]\<rparr>"


section \<open>A batch of three answers\<close>

definition order_fields :: "DetectedFormField list" where
  "order_fields = [field_of 2 ''Full Name'' ''text'', field_of 3 ''Quantity'' ''number'']"

definition order_answers :: "GeneratedAnswer list" where
  "order_answers =
     [\<lparr>fieldLabel = ''full name:'', fieldType = ''text'', answer = ''Jane Doe'', confidence = 1\<rparr>,
      \<lparr>fieldLabel = ''Colour'', fieldType = ''text'', answer = ''red'', confidence = 1\<rparr>,
      \<lparr>fieldLabel = ''Quantity'', fieldType = ''number'', answer = ''150 items'',
        confidence = 1\<rparr>]"

definition order_page :: world where
  "order_page =
     page_of (\<lambda>n. if n = 3 then plain_input\<lparr>el_type := ''number'', el_max := ''100''\<rparr>
                    else plain_input)"


section \<open>Injecting the same answers twice\<close>

text \<open>One text input without inline style, one catalog entry for it and one answer.
  \<open>inject_once\<close> is the page after one call of \<open>injectAnswers\<close> when every timer has
  run; \<open>inject_twice\<close> is the page after two calls, the second one made as soon as the
  first has returned, when every timer has run.\<close>

definition name_field :: DetectedFormField where
  "name_field = field_of 0 ''Full Name'' ''text''"

definition name_answer :: GeneratedAnswer where
  "name_answer = \<lparr>fieldLabel = ''full name:'', fieldType = ''text'', answer = ''Jane Doe'',
     confidence = 1\<rparr>"

definition one_input_page :: world where
  "one_input_page = page_of (\<lambda>n. plain_input)"

definition inject_once :: world where
  "inject_once = settle (snd (injectAnswers [name_answer] [name_field] one_input_page))"

definition inject_twice :: world where
  "inject_twice =
     settle (snd (injectAnswers [name_answer] [name_field]
                    (snd (injectAnswers [name_answer] [name_field] one_input_page))))"


section \<open>A page to scan\<close>

text \<open>A page with one form and two fields outside it. In the form: a name field (which
  the form lists twice), a hidden input, a token input, a submit input and an input whose
  id breaks the label selector. Outside: a disabled input and an email input.\<close>

definition signup_page :: world where
  "signup_page =
     (page_of
        ((\<lambda>n. plain_input)
          (10 := plain_input\<lparr>el_name := ''fullName''\<rparr>,
           11 := plain_input\<lparr>el_type := ''hidden'', el_name := ''ref''\<rparr>,
           12 := plain_input\<lparr>el_name := ''CSRF_Token''\<rparr>,
           13 := plain_input\<lparr>el_type := ''submit'', el_name := ''go''\<rparr>,
           14 := plain_input\<lparr>el_disabled := True, el_name := ''old''\<rparr>,
           15 := plain_input\<lparr>el_type := ''email'', el_placeholder := ''Email Address *''\<rparr>,
           20 := plain_input\<lparr>el_id := [CHR ''a'', CHR 0x22, CHR ''b''], el_name := ''nick''\<rparr>)))
       \<lparr>around :=
          (\<lambda>n. nothing_around\<lparr>in_form := True\<rparr>)
            (14 := nothing_around, 15 := nothing_around,
             20 := nothing_around\<lparr>in_form := True, label_for := Throws\<rparr>),
        forms := [[10, 11, 12, 13, 20, 10]],
        allInputs := [10, 11, 12, 13, 20, 14, 15]\<rparr>"


section \<open>A catalog to match against\<close>



chapter \<open>Properties\<close>

section \<open>Basic facts about the page\<close>

lemma elems_update_element:
  "elems (update_element n f w) m = (if m = n then f (elems w n) else elems w m)"
  by (simp add: update_element_def)

lemma update_element_others:
  "around (update_element n f w) = around w"
  "clock (update_element n f w) = clock w"
  "timers (update_element n f w) = timers w"
  "calls (update_element n f w) = calls w"
  "notifications (update_element n f w) = notifications w"
  "engine_Date (update_element n f w) = engine_Date w"
  "injectedFields (update_element n f w) = injectedFields w"
  "forms (update_element n f w) = forms w"
  "allInputs (update_element n f w) = allInputs w"
  by (simp_all add: update_element_def)

lemma unstyled_run_timer: "unstyled (elems (run_timer t w) n) = unstyled (elems w n)"
  by (simp add: run_timer_def elems_update_element unstyled_def)

lemma unstyled_fold_run_timer: "unstyled (elems (fold run_timer ts w) n) = unstyled (elems w n)"
  by (induction ts arbitrary: w) (simp_all add: unstyled_run_timer)

lemma unstyled_advance: "unstyled (elems (advance d w) n) = unstyled (elems w n)"
  by (simp add: advance_def Let_def unstyled_fold_run_timer)

lemma fold_run_timer_others:
  "around (fold run_timer ts w) = around w"
  "clock (fold run_timer ts w) = clock w"
  "timers (fold run_timer ts w) = timers w"
  "calls (fold run_timer ts w) = calls w"
  "notifications (fold run_timer ts w) = notifications w"
  "engine_Date (fold run_timer ts w) = engine_Date w"
  "injectedFields (fold run_timer ts w) = injectedFields w"
  by (induction ts arbitrary: w; simp add: run_timer_def update_element_others)+

lemma advance_others:
  "around (advance d w) = around w"
  "calls (advance d w) = calls w"
  "notifications (advance d w) = notifications w"
  "engine_Date (advance d w) = engine_Date w"
  "injectedFields (advance d w) = injectedFields w"
  "clock (advance d w) = clock w + d"
  by (simp_all add: advance_def Let_def fold_run_timer_others)

lemma unstyled_fields:
  assumes "unstyled e' = unstyled e"
  shows "el_value e' = el_value e" "el_checked e' = el_checked e" "el_options e' = el_options e"
    "prop_maxLength e' = prop_maxLength e" "prop_min e' = prop_min e" "prop_max e' = prop_max e"
    "prop_type e' = prop_type e" "isElementInteractable e' = isElementInteractable e"
    "el_tagName e' = el_tagName e"
proof -
  have v: "el_value (unstyled x) = el_value x" "el_checked (unstyled x) = el_checked x"
    "el_options (unstyled x) = el_options x" "prop_maxLength (unstyled x) = prop_maxLength x"
    "prop_min (unstyled x) = prop_min x" "prop_max (unstyled x) = prop_max x"
    "prop_type (unstyled x) = prop_type x"
    "isElementInteractable (unstyled x) = isElementInteractable x"
    "el_tagName (unstyled x) = el_tagName x" for x
    by (simp_all add: unstyled_def prop_maxLength_def prop_min_def prop_max_def prop_type_def
        isElementInteractable_def split: tag.splits)
  show "el_value e' = el_value e" using v(1) [of e'] v(1) [of e] assms by simp
  show "el_checked e' = el_checked e" using v(2) [of e'] v(2) [of e] assms by simp
  show "el_options e' = el_options e" using v(3) [of e'] v(3) [of e] assms by simp
  show "prop_maxLength e' = prop_maxLength e" using v(4) [of e'] v(4) [of e] assms by simp
  show "prop_min e' = prop_min e" using v(5) [of e'] v(5) [of e] assms by simp
  show "prop_max e' = prop_max e" using v(6) [of e'] v(6) [of e] assms by simp
  show "prop_type e' = prop_type e" using v(7) [of e'] v(7) [of e] assms by simp
  show "isElementInteractable e' = isElementInteractable e"
    using v(8) [of e'] v(8) [of e] assms by simp
  show "el_tagName e' = el_tagName e" using v(9) [of e'] v(9) [of e] assms by simp
qed


lemma elems_focusElement: "elems (focusElement n w) = elems w"
  by (simp add: focusElement_def)

lemma elems_triggerChangeEvents: "elems (triggerChangeEvents n w) = elems w"
  by (simp add: triggerChangeEvents_def)

lemma unstyled_addSuccessHighlight:
  "unstyled (elems (addSuccessHighlight n w) m) = unstyled (elems w m)"
  by (simp add: addSuccessHighlight_def Let_def elems_update_element unstyled_def)

lemmas highlight_fields = unstyled_fields [OF unstyled_addSuccessHighlight]



lemma injectSingleField_success:
  assumes "isElementInteractable (elems w (element f))"
    and "dispatch_writer (ftype f) (element f) content
           (advance 100 (focusElement (element f) w)) = Some (True, w2)"
  shows "injectSingleField f content w =
           (True, addSuccessHighlight (element f) (triggerChangeEvents (element f) w2))"
  using assms by (simp add: injectSingleField_def Let_def)

lemma injectSingleField_failure:
  assumes "isElementInteractable (elems w (element f))"
    and "dispatch_writer (ftype f) (element f) content
           (advance 100 (focusElement (element f) w)) = Some (False, w2)"
  shows "injectSingleField f content w = (False, w2)"
  using assms by (simp add: injectSingleField_def Let_def)


section \<open>Checkboxes\<close>







section \<open>Text inputs and textareas\<close>






section \<open>Number inputs\<close>













section \<open>Date inputs\<close>

lemma date_dispatch:
  assumes "t = ''date'' \<or> t = ''datetime''"
  shows "dispatch_writer t n content w = Some (injectDate n content w)"
  using assms by (elim disjE) (simp_all add: dispatch_writer_def)

lemma date_injection:
  assumes "ftype f = ''date'' \<or> ftype f = ''datetime''"
    and "isElementInteractable (elems w (element f))"
  shows "(parseDate (engine_Date w) content = None \<longrightarrow>
           \<not> fst (injectSingleField f content w) \<and>
           unstyled (elems (snd (injectSingleField f content w)) (element f)) =
             unstyled (elems w (element f))) \<and>
         (\<forall>d. parseDate (engine_Date w) content = Some d \<and> d \<noteq> [] \<longrightarrow>
           fst (injectSingleField f content w) \<and>
           el_value (elems (snd (injectSingleField f content w)) (element f)) = d)"
proof (intro conjI allI impI)
  let ?n = "element f"
  let ?w1 = "advance 100 (focusElement ?n w)"
  have d: "dispatch_writer (ftype f) ?n content ?w1 = Some (injectDate ?n content ?w1)"
    by (rule date_dispatch [OF assms(1)])
  have e: "engine_Date ?w1 = engine_Date w"
    by (simp add: advance_others focusElement_def)
  {
    assume p: "parseDate (engine_Date w) content = None"
    have "dispatch_writer (ftype f) ?n content ?w1 = Some (False, ?w1)"
      using d p by (simp add: injectDate_def e)
    from injectSingleField_failure [OF assms(2) this]
    show "\<not> fst (injectSingleField f content w)"
      "unstyled (elems (snd (injectSingleField f content w)) ?n) = unstyled (elems w ?n)"
      by (simp_all add: unstyled_advance elems_focusElement)
  }
  {
    fix d' assume p: "parseDate (engine_Date w) content = Some d' \<and> d' \<noteq> []"
    have "dispatch_writer (ftype f) ?n content ?w1 =
        Some (True, update_element ?n (\<lambda>e. e\<lparr>el_value := d'\<rparr>) ?w1)"
      using d p by (simp add: injectDate_def e)
    from injectSingleField_success [OF assms(2) this]
    show "fst (injectSingleField f content w)"
      "el_value (elems (snd (injectSingleField f content w)) ?n) = d'"
      by (simp_all add: highlight_fields elems_triggerChangeEvents elems_update_element)
  }
qed

lemma parseDate_5_March_at_UTC_plus_1:
  "parseDate (local_Date 60) ''on 5 March 2024'' = Some ''2024-03-04''"
  by code_simp

lemma parseDate_5_March_at_UTC:
  "parseDate (local_Date 0) ''on 5 March 2024'' = Some ''2024-03-05''"
  by code_simp

lemma cleaned_5_March: "trim (strip_connectives False 0 ''on 5 March 2024'') = ''5 March 2024''"
  by code_simp

lemma local_midnight_5_March: "local_Date 60 ''5 March 2024'' = Some 1709593200000"
  by code_simp

lemma iso_of_local_midnight: "toISOString 1709593200000 = ''2024-03-04T23:00:00.000Z''"
  by code_simp

text \<open>
  C5. The connective words are stripped and the rest is given to the \<open>Date\<close>
  constructor, but the date that is written is the UTC date of the time value, not the
  calendar date of the answer. In a browser whose local time is one hour ahead of UTC the
  answer \<open>on 5 March 2024\<close> to a date field is read as local midnight of 5 March, which
  is 23:00 of 4 March in UTC, and \<open>2024-03-04\<close> is written. Where local time is not
  ahead of UTC the same answer gives \<open>2024-03-05\<close>.
\<close>

theorem date_written_a_day_early:
  "fst (injectSingleField (field_of 0 ''Start date'' ''date'') ''on 5 March 2024'' berlin_page) \<and>
   el_value (elems (snd (injectSingleField (field_of 0 ''Start date'' ''date'')
     ''on 5 March 2024'' berlin_page)) 0) = ''2024-03-04'' \<and>
   engine_Date berlin_page ''5 March 2024'' = Some 1709593200000 \<and>
   toISOString 1709593200000 = ''2024-03-04T23:00:00.000Z''"
proof -
  let ?f = "field_of 0 ''Start date'' ''date''"
  have t: "ftype ?f = ''date'' \<or> ftype ?f = ''datetime''" by (simp add: field_of_def)
  have i: "isElementInteractable (elems berlin_page (element ?f))"
    by (simp add: berlin_page_def page_of_def plain_input_def isElementInteractable_def)
  have e: "engine_Date berlin_page = local_Date 60"
    by (simp add: berlin_page_def)
  have n: "element ?f = 0" by (simp add: field_of_def)
  show ?thesis
    using date_injection [OF t i, of "''on 5 March 2024''"]
    by (simp add: e n parseDate_5_March_at_UTC_plus_1 local_midnight_5_March iso_of_local_midnight)
qed


section \<open>Rollback\<close>

lemma elems_clear_element:
  "elems (clear_element m w) n = (if n = m then cleared (elems w n) else elems w n)"
  by (simp add: clear_element_def cleared_def elems_triggerChangeEvents elems_update_element
      split: tag.splits)

lemma injectedFields_clear_element: "injectedFields (clear_element m w) = injectedFields w"
  by (simp add: clear_element_def triggerChangeEvents_def update_element_others split: tag.splits)

lemma set_selectedIndex_0_idem: "set_selectedIndex_0 (set_selectedIndex_0 e) = set_selectedIndex_0 e"
  by (cases "el_options e") (simp_all add: set_selectedIndex_0_def comp_def)

lemma tagName_set_selectedIndex_0: "el_tagName (set_selectedIndex_0 e) = el_tagName e"
  by (simp add: set_selectedIndex_0_def)

lemma cleared_idem: "cleared (cleared e) = cleared e"
  by (cases "el_tagName e")
     (simp_all add: cleared_def set_selectedIndex_0_idem tagName_set_selectedIndex_0)

lemma elems_fold_clear_element:
  "elems (fold clear_element ks w) n = (if n \<in> set ks then cleared (elems w n) else elems w n)"
  by (induction ks arbitrary: w) (simp_all add: elems_clear_element cleared_idem)

lemma clear_element_registry:
  "clear_element m (w\<lparr>injectedFields := r\<rparr>) = (clear_element m w)\<lparr>injectedFields := r\<rparr>"
  by (simp add: clear_element_def triggerChangeEvents_def update_element_def split: tag.splits)

lemma fold_clear_element_registry:
  "fold clear_element ks (w\<lparr>injectedFields := r\<rparr>) = (fold clear_element ks w)\<lparr>injectedFields := r\<rparr>"
  by (induction ks arbitrary: w) (simp_all add: clear_element_registry)

lemma selectedIndex_after:
  "selectedIndex (set_selectedIndex_0 e) = (if el_options e = [] then -1 else 0)"
  by (simp add: selectedIndex_def set_selectedIndex_0_def split: list.splits)

text \<open>
  C10. \<open>clearAllInjections\<close> restores nothing. Every element that is a key of the map
  of injected values gets the empty string as value when it is an input or a textarea,
  whatever its value was, and its selected index set to 0 when it is a select (the
  index reads \<open>-1\<close> afterwards only for a select without options); every other element
  is left as it is; the result is the same for any values stored under the same keys, so
  the stored values are not read; and the map is empty afterwards.
\<close>

theorem clearAllInjections_blanks:
  "injectedFields (clearAllInjections w) = [] \<and>
   (\<forall>n \<in> fst ` set (injectedFields w).
      (el_tagName (elems w n) = INPUT \<or> el_tagName (elems w n) = TEXTAREA \<longrightarrow>
         elems (clearAllInjections w) n = (elems w n)\<lparr>el_value := []\<rparr>) \<and>
      (el_tagName (elems w n) = SELECT \<longrightarrow>
         elems (clearAllInjections w) n = set_selectedIndex_0 (elems w n) \<and>
         selectedIndex (elems (clearAllInjections w) n) =
           (if el_options (elems w n) = [] then -1 else 0))) \<and>
   (\<forall>n. n \<notin> fst ` set (injectedFields w) \<longrightarrow> elems (clearAllInjections w) n = elems w n) \<and>
   (\<forall>r. map fst r = map fst (injectedFields w) \<longrightarrow>
      clearAllInjections (w\<lparr>injectedFields := r\<rparr>) = clearAllInjections w)"
proof -
  have e: "elems (clearAllInjections w) n =
      (if n \<in> fst ` set (injectedFields w) then cleared (elems w n) else elems w n)" for n
    by (simp add: clearAllInjections_def elems_fold_clear_element)
  have r: "clearAllInjections (w\<lparr>injectedFields := r\<rparr>) = clearAllInjections w"
    if "map fst r = map fst (injectedFields w)" for r
    using that by (simp add: clearAllInjections_def fold_clear_element_registry)
  have c: "injectedFields (clearAllInjections w) = []"
    by (simp add: clearAllInjections_def)
  have i: "el_tagName x = INPUT \<or> el_tagName x = TEXTAREA \<Longrightarrow> cleared x = x\<lparr>el_value := []\<rparr>"
    for x by (auto simp: cleared_def)
  have s: "el_tagName x = SELECT \<Longrightarrow> cleared x = set_selectedIndex_0 x" for x
    by (simp add: cleared_def)
  show ?thesis
    using c r by (simp add: e i s selectedIndex_after)
qed

theorem clearAllInjections_blanks_witness:
  "el_value (elems (clearAllInjections filled_page) 2) = [] \<and>
   selectedIndex (elems (clearAllInjections filled_page) 3) = 0 \<and>
   el_value (elems (clearAllInjections filled_page) 4) = ''kept'' \<and>
   injectedFields (clearAllInjections filled_page) = [] \<and>
   clearAllInjections (filled_page\<lparr>injectedFields := [(2, ''other''), (3, ''Blue'')]\<rparr>) =
     clearAllInjections filled_page"
proof -
  have k: "fst ` set (injectedFields filled_page) = {2, 3}"
    "map fst (injectedFields filled_page) = [2, 3]"
    by (simp_all add: filled_page_def)
  have e: "el_tagName (elems filled_page 2) = INPUT" "el_tagName (elems filled_page 3) = SELECT"
    "el_options (elems filled_page 3) \<noteq> []" "el_value (elems filled_page 4) = ''kept''"
    by (simp_all add: filled_page_def page_of_def plain_input_def select_element_def)
  show ?thesis
    using clearAllInjections_blanks [of filled_page] by (simp add: k e selectedIndex_after)
qed


section \<open>The batch\<close>

lemma inject_loop_counts:
  "fst (inject_loop answers formFields sc ta w) =
     sc + successes (attempt_outcomes answers formFields w) \<and>
   fst (snd (inject_loop answers formFields sc ta w)) =
     ta + attempts (attempt_outcomes answers formFields w)"
proof (induction answers arbitrary: sc ta w)
  case Nil
  show ?case by (simp add: successes_def attempts_def)
next
  case (Cons a rest)
  show ?case
  proof (cases "findMatchingField (fieldLabel a) formFields")
    case None
    then show ?thesis using Cons.IH [of sc ta w] by (simp add: successes_def attempts_def)
  next
    case (Some m)
    obtain ok w' where r: "injectSingleField m (answer a) w = (ok, w')"
      by (cases "injectSingleField m (answer a) w")
    show ?thesis
    proof (cases ok)
      case True
      with Some r show ?thesis
        using Cons.IH [of "sc + 1" "ta + 1"
            "w'\<lparr>injectedFields := AList.update (element m) (answer a) (injectedFields w')\<rparr>"]
        by (simp add: successes_def attempts_def)
    next
      case False
      with Some r show ?thesis
        using Cons.IH [of sc "ta + 1" w'] by (simp add: successes_def attempts_def)
    qed
  qed
qed

lemma outcomes_dropped:
  "map (\<lambda>out. out = None) (attempt_outcomes answers formFields w) =
   map (\<lambda>a. findMatchingField (fieldLabel a) formFields = None) answers"
proof (induction answers arbitrary: w)
  case Nil
  show ?case by simp
next
  case (Cons a rest)
  show ?case
    by (cases "findMatchingField (fieldLabel a) formFields")
       (simp_all add: Cons.IH split: prod.splits)
qed

lemma attempts_matched:
  "attempts (attempt_outcomes answers formFields w) =
   length (filter (\<lambda>a. findMatchingField (fieldLabel a) formFields \<noteq> None) answers)"
proof (induction answers arbitrary: w)
  case Nil
  show ?case by (simp add: attempts_def)
next
  case (Cons a rest)
  show ?case
  proof (cases "findMatchingField (fieldLabel a) formFields")
    case None
    then show ?thesis using Cons.IH [of w] by (simp add: attempts_def)
  next
    case (Some m)
    obtain ok w' where r: "injectSingleField m (answer a) w = (ok, w')"
      by (cases "injectSingleField m (answer a) w")
    show ?thesis
      using Some r Cons.IH by (cases ok) (simp_all add: attempts_def)
  qed
qed

lemma successes_positive: "(0 < successes outs) = (Some True \<in> set outs)"
  by (induction outs) (simp_all add: successes_def)

text \<open>
  C1. \<open>injectAnswers\<close> returns true exactly when the injection of at least one answer
  succeeded. The summary it shows counts as attempts the answers for which the matcher
  found a field, and as successes the attempts whose write succeeded: an answer without
  a field is dropped and is no attempt (there are as many attempts as answers with a
  matching field), and an attempt whose write fails is an attempt that is no success.
\<close>

theorem injectAnswers_result:
  "fst (injectAnswers answers formFields w) =
     (Some True \<in> set (attempt_outcomes answers formFields w)) \<and>
   last (notifications (snd (injectAnswers answers formFields w))) =
     (successes (attempt_outcomes answers formFields w) =
        attempts (attempt_outcomes answers formFields w),
      successes (attempt_outcomes answers formFields w),
      attempts (attempt_outcomes answers formFields w)) \<and>
   map (\<lambda>out. out = None) (attempt_outcomes answers formFields w) =
     map (\<lambda>a. findMatchingField (fieldLabel a) formFields = None) answers \<and>
   attempts (attempt_outcomes answers formFields w) =
     length (filter (\<lambda>a. findMatchingField (fieldLabel a) formFields \<noteq> None) answers) \<and>
   successes (attempt_outcomes answers formFields w) +
     length (filter (\<lambda>out. out = Some False) (attempt_outcomes answers formFields w)) =
     attempts (attempt_outcomes answers formFields w)"
proof -
  obtain sc ta w' where l: "inject_loop answers formFields 0 0 w = (sc, ta, w')"
    by (cases "inject_loop answers formFields 0 0 w")
  from inject_loop_counts [of answers formFields 0 0 w] l
  have c: "sc = successes (attempt_outcomes answers formFields w)"
    "ta = attempts (attempt_outcomes answers formFields w)"
    by simp_all
  have r: "injectAnswers answers formFields w = (0 < sc, showInjectionFeedback sc ta w')"
    by (simp add: injectAnswers_def l)
  have f: "successes outs + length (filter (\<lambda>out. out = Some False) outs) = attempts outs"
    for outs
  proof (induction outs)
    case Nil
    show ?case by (simp add: successes_def attempts_def)
  next
    case (Cons out outs)
    then show ?case by (cases out) (simp_all add: successes_def attempts_def)
  qed
  show ?thesis
    by (simp add: r c successes_positive showInjectionFeedback_def outcomes_dropped
        attempts_matched f)
qed

lemma order_outcomes:
  "attempt_outcomes order_answers order_fields order_page = [Some True, None, Some False]"
  by code_simp

theorem injectAnswers_result_witness:
  "fst (injectAnswers order_answers order_fields order_page) \<and>
   last (notifications (snd (injectAnswers order_answers order_fields order_page))) =
     (False, 1, 2)"
  using injectAnswers_result [of order_answers order_fields order_page]
  by (simp add: order_outcomes successes_def attempts_def)


section \<open>Injecting the same answers twice\<close>

lemma once_border: "el_border (elems inject_once 0) = []"
  by code_simp

lemma twice_border: "el_border (elems inject_twice 0) = ''2px solid #10b981''"
  by code_simp

lemma once_shadow: "el_boxShadow (elems inject_once 0) = []"
  by code_simp

lemma twice_shadow: "el_boxShadow (elems inject_twice 0) = ''0 0 0 3px rgba(16, 185, 129, 0.1)''"
  by code_simp

lemma once_value: "el_value (elems inject_once 0) = ''Jane Doe''"
  by code_simp

lemma twice_value: "el_value (elems inject_twice 0) = ''Jane Doe''"
  by code_simp

lemma no_timer_left: "timers inject_once = [] \<and> timers inject_twice = []"
  by code_simp

text \<open>
  C9. A second call of \<open>injectAnswers\<close> with the same answers within two seconds of the
  first does not leave the page as one call does. \<open>addSuccessHighlight\<close> saves the
  border and shadow it finds as the original ones; in the second call these are the
  highlight of the first call, and the timer of the second call puts them back after the
  timer of the first call has removed them. After one call the input ends with its own
  (empty) border and shadow, after two calls it keeps the highlight for good. The values
  are the same in both cases.
\<close>

theorem second_injection_keeps_highlight:
  "el_border (elems one_input_page 0) = [] \<and>
   el_border (elems inject_once 0) = [] \<and>
   el_border (elems inject_twice 0) = ''2px solid #10b981'' \<and>
   el_boxShadow (elems inject_once 0) = [] \<and>
   el_boxShadow (elems inject_twice 0) = ''0 0 0 3px rgba(16, 185, 129, 0.1)'' \<and>
   timers inject_once = [] \<and> timers inject_twice = [] \<and>
   elems inject_twice \<noteq> elems inject_once"
proof -
  have "el_border (elems inject_twice 0) \<noteq> el_border (elems inject_once 0)"
    by (simp add: once_border twice_border)
  then have "elems inject_twice \<noteq> elems inject_once" by metis
  moreover have "el_border (elems one_input_page 0) = []"
    by (simp add: one_input_page_def page_of_def plain_input_def)
  ultimately show ?thesis
    using no_timer_left by (simp add: once_border twice_border once_shadow twice_shadow)
qed


section \<open>The scan\<close>

lemma processFieldElement_step:
  "processFieldElement w n d =
     d\<lparr>detectedFields := detectedFields d @ (case extracted w n of None \<Rightarrow> [] | Some f \<Rightarrow> [f]),
       warnings := warnings d @ (if extraction_fails w n then [n] else [])\<rparr>"
  by (cases "extract_try n w")
     (simp_all add: processFieldElement_def extracted_def extraction_fails_def extractFieldInfo_def)

lemma fold_processFieldElement:
  "fold (processFieldElement w) ns d =
     d\<lparr>detectedFields := detectedFields d @ List.map_filter (extracted w) ns,
       warnings := warnings d @ filter (extraction_fails w) ns\<rparr>"
proof (induction ns arbitrary: d)
  case Nil
  show ?case by (simp add: List.map_filter_simps)
next
  case (Cons n ns)
  let ?d = "processFieldElement w n d"
  have "fold (processFieldElement w) (n # ns) d = fold (processFieldElement w) ns ?d"
    by simp
  also have "\<dots> = ?d\<lparr>detectedFields := detectedFields ?d @ List.map_filter (extracted w) ns,
       warnings := warnings ?d @ filter (extraction_fails w) ns\<rparr>"
    by (rule Cons.IH)
  also have "\<dots> = d\<lparr>detectedFields := detectedFields d @ List.map_filter (extracted w) (n # ns),
       warnings := warnings d @ filter (extraction_fails w) (n # ns)\<rparr>"
    by (cases "extracted w n")
       (simp_all add: processFieldElement_step [of w n d] List.map_filter_simps)
  finally show ?case .
qed

lemma fold_processFormElements:
  "fold (processFormElements w) fms d = fold (processFieldElement w) (concat fms) d"
  by (induction fms arbitrary: d) (simp_all add: processFormElements_def)

lemma map_filter_append:
  "List.map_filter g (xs @ ys) = List.map_filter g xs @ List.map_filter g ys"
  by (simp add: List.map_filter_def)

lemma detectFields_eq:
  "detectFields w =
     \<lparr>detectedFields = filterAndDeduplicateFields (List.map_filter (extracted w) (scan_order w)),
      warnings = filter (extraction_fails w) (scan_order w)\<rparr>"
  by (simp add: detectFields_def Let_def fold_processFormElements fold_processFieldElement
      scan_order_def map_filter_append)

lemma extracted_element: "extracted w n = Some f \<Longrightarrow> element f = n \<and> \<not> shouldSkipField (elems w n)"
  by (cases "findFieldLabel (elems w n) (around w n)";
      cases "isFieldRequired (elems w n) (around w n)")
     (auto simp add: extracted_def extract_try_def Let_def split: if_splits)

lemma filter_loop_subset:
  "set (filter_loop fs seen acc) \<subseteq> set fs \<union> set acc"
proof (induction fs arbitrary: seen acc)
  case Nil
  show ?case by simp
next
  case (Cons f fs)
  show ?case
  proof (cases "element f \<in> seen \<or>
      toLowerCase (ftype f) \<in> set [''submit'', ''button'', ''reset'', ''image'']")
    case True
    then have "filter_loop (f # fs) seen acc = filter_loop fs seen acc" by auto
    with Cons.IH [where seen = seen and acc = acc] show ?thesis by auto
  next
    case False
    then have "filter_loop (f # fs) seen acc =
        filter_loop fs (insert (element f) seen) (acc @ [f])" by simp
    with Cons.IH [where seen = "insert (element f) seen" and acc = "acc @ [f]"] show ?thesis by auto
  qed
qed

lemma filter_loop_grows: "set acc \<subseteq> set (filter_loop fs seen acc)"
proof (induction fs arbitrary: seen acc)
  case Nil
  show ?case by simp
next
  case (Cons f fs)
  show ?case
  proof (cases "element f \<in> seen \<or>
      toLowerCase (ftype f) \<in> set [''submit'', ''button'', ''reset'', ''image'']")
    case True
    then have "filter_loop (f # fs) seen acc = filter_loop fs seen acc" by auto
    with Cons.IH [where seen = seen and acc = acc] show ?thesis by simp
  next
    case False
    then have "filter_loop (f # fs) seen acc =
        filter_loop fs (insert (element f) seen) (acc @ [f])" by simp
    with Cons.IH [where seen = "insert (element f) seen" and acc = "acc @ [f]"] show ?thesis by auto
  qed
qed

lemma filter_loop_types:
  "\<forall>f \<in> set acc. toLowerCase (ftype f) \<notin> set [''submit'', ''button'', ''reset'', ''image'']
   \<Longrightarrow> \<forall>f \<in> set (filter_loop fs seen acc).
         toLowerCase (ftype f) \<notin> set [''submit'', ''button'', ''reset'', ''image'']"
proof (induction fs arbitrary: seen acc)
  case Nil
  then show ?case by simp
next
  case (Cons f fs)
  show ?case
  proof (cases "element f \<in> seen \<or>
      toLowerCase (ftype f) \<in> set [''submit'', ''button'', ''reset'', ''image'']")
    case True
    then have "filter_loop (f # fs) seen acc = filter_loop fs seen acc" by auto
    with Cons.IH [OF Cons.prems] show ?thesis by simp
  next
    case False
    then have e: "filter_loop (f # fs) seen acc =
        filter_loop fs (insert (element f) seen) (acc @ [f])" by simp
    have "\<forall>g \<in> set (acc @ [f]).
        toLowerCase (ftype g) \<notin> set [''submit'', ''button'', ''reset'', ''image'']"
      using Cons.prems False by auto
    from Cons.IH [OF this] e show ?thesis by simp
  qed
qed

lemma filter_loop_distinct:
  "distinct (map element acc) \<Longrightarrow> element ` set acc \<subseteq> seen
   \<Longrightarrow> distinct (map element (filter_loop fs seen acc))"
proof (induction fs arbitrary: seen acc)
  case Nil
  then show ?case by simp
next
  case (Cons f fs)
  show ?case
  proof (cases "element f \<in> seen \<or>
      toLowerCase (ftype f) \<in> set [''submit'', ''button'', ''reset'', ''image'']")
    case True
    then have "filter_loop (f # fs) seen acc = filter_loop fs seen acc" by auto
    with Cons.IH [OF Cons.prems] show ?thesis by simp
  next
    case False
    then have e: "filter_loop (f # fs) seen acc =
        filter_loop fs (insert (element f) seen) (acc @ [f])" by simp
    have "distinct (map element (acc @ [f]))"
      using Cons.prems False by auto
    moreover have "element ` set (acc @ [f]) \<subseteq> insert (element f) seen"
      using Cons.prems by auto
    ultimately show ?thesis using Cons.IH e by simp
  qed
qed

lemma filter_loop_keeps:
  "element ` set acc \<subseteq> seen \<Longrightarrow> seen \<subseteq> element ` set acc \<Longrightarrow> f \<in> set fs \<union> set acc \<Longrightarrow>
   toLowerCase (ftype f) \<notin> set [''submit'', ''button'', ''reset'', ''image''] \<Longrightarrow>
   element f \<in> element ` set (filter_loop fs seen acc)"
proof (induction fs arbitrary: seen acc)
  case Nil
  then show ?case by simp
next
  case (Cons g fs)
  show ?case
  proof (cases "element g \<in> seen \<or>
      toLowerCase (ftype g) \<in> set [''submit'', ''button'', ''reset'', ''image'']")
    case True
    then have e: "filter_loop (g # fs) seen acc = filter_loop fs seen acc" by auto
    show ?thesis
    proof (cases "f = g")
      case same: True
      with True Cons.prems(4) have "element f \<in> seen" by simp
      with Cons.prems(2) obtain h where h: "h \<in> set acc" "element h = element f" by auto
      have "h \<in> set (filter_loop (g # fs) seen acc)"
        using filter_loop_grows [where acc = acc and fs = fs and seen = seen] e h(1) by auto
      then have "element h \<in> element ` set (filter_loop (g # fs) seen acc)"
        by (rule imageI)
      then show ?thesis using h(2) by simp
    next
      case False
      with Cons.prems(3) have "f \<in> set fs \<union> set acc" by simp
      from Cons.IH [OF Cons.prems(1) Cons.prems(2) this Cons.prems(4)] e show ?thesis by simp
    qed
  next
    case False
    then have e: "filter_loop (g # fs) seen acc =
        filter_loop fs (insert (element g) seen) (acc @ [g])" by simp
    have 1: "element ` set (acc @ [g]) \<subseteq> insert (element g) seen" using Cons.prems(1) by auto
    have 2: "insert (element g) seen \<subseteq> element ` set (acc @ [g])" using Cons.prems(2) by auto
    have 3: "f \<in> set fs \<union> set (acc @ [g])" using Cons.prems(3) by auto
    from Cons.IH [OF 1 2 3 Cons.prems(4)] e show ?thesis by simp
  qed
qed

lemma not_skipped:
  assumes "\<not> shouldSkipField e"
  shows "prop_type e \<noteq> ''hidden''" and "\<not> el_disabled e"
    and "\<not> list_ex (\<lambda>skip. js_includes (toLowerCase (el_name e)) skip \<or>
                           js_includes (toLowerCase (el_id e)) skip) skipNames"
  using assms unfolding shouldSkipField_def by (simp_all split: if_splits)

lemma button_type_lower:
  assumes "t \<in> set [''submit'', ''button'', ''reset'', ''image'']"
  shows "toLowerCase t \<in> set [''submit'', ''button'', ''reset'', ''image'']"
proof -
  have l: "toLowerCase ''submit'' = ''submit''" "toLowerCase ''button'' = ''button''"
    "toLowerCase ''reset'' = ''reset''" "toLowerCase ''image'' = ''image''"
    by code_simp+
  from assms have "t = ''submit'' \<or> t = ''button'' \<or> t = ''reset'' \<or> t = ''image''" by simp
  then show ?thesis by (elim disjE) (simp_all only: l, simp_all)
qed

lemma detected_from_scan:
  assumes "f \<in> set (detectedFields (detectFields w))"
  shows "\<not> shouldSkipField (elems w (element f))"
    and "toLowerCase (ftype f) \<notin> set [''submit'', ''button'', ''reset'', ''image'']"
proof -
  let ?all = "List.map_filter (extracted w) (scan_order w)"
  have r: "detectedFields (detectFields w) = filter_loop ?all {} []"
    by (simp add: detectFields_eq filterAndDeduplicateFields_def)
  have "f \<in> set ?all" using assms filter_loop_subset [of ?all "{}" "[]"] r by auto
  then obtain n where "extracted w n = Some f"
    by (auto simp: List.map_filter_def)
  from extracted_element [OF this] show "\<not> shouldSkipField (elems w (element f))" by simp
  have "\<forall>g \<in> set (filter_loop ?all {} []).
      toLowerCase (ftype g) \<notin> set [''submit'', ''button'', ''reset'', ''image'']"
    by (rule filter_loop_types) simp
  with assms r show "toLowerCase (ftype f) \<notin> set [''submit'', ''button'', ''reset'', ''image'']"
    by simp
qed

text \<open>
  C2. No entry of the catalog that \<open>detectFields\<close> returns is for an element of type
  \<open>hidden\<close>, for a disabled element, or for an element whose name or id in lower case
  contains one of the eleven tokens of \<open>skipNames\<close>; no entry has the type \<open>submit\<close>,
  \<open>button\<close>, \<open>reset\<close> or \<open>image\<close>; and no two entries are for the same element.
\<close>

theorem scan_excludes_ineligible:
  "(\<forall>f \<in> set (detectedFields (detectFields w)).
      prop_type (elems w (element f)) \<noteq> ''hidden'' \<and>
      \<not> el_disabled (elems w (element f)) \<and>
      (\<forall>skip \<in> set skipNames.
         \<not> js_includes (toLowerCase (el_name (elems w (element f)))) skip \<and>
         \<not> js_includes (toLowerCase (el_id (elems w (element f)))) skip) \<and>
      ftype f \<notin> set [''submit'', ''button'', ''reset'', ''image'']) \<and>
   distinct (map element (detectedFields (detectFields w))) \<and>
   skipNames = [''csrf'', ''token'', ''_token'', ''authenticity_token'', ''utf8'', ''_method'',
     ''commit'', ''submit'', ''captcha'', ''recaptcha'', ''g-recaptcha-response'']"
proof (intro conjI ballI)
  fix f assume f: "f \<in> set (detectedFields (detectFields w))"
  note s = detected_from_scan(1) [OF f]
  show "prop_type (elems w (element f)) \<noteq> ''hidden''" by (rule not_skipped(1) [OF s])
  show "\<not> el_disabled (elems w (element f))" by (rule not_skipped(2) [OF s])
  show "ftype f \<notin> set [''submit'', ''button'', ''reset'', ''image'']"
    using detected_from_scan(2) [OF f] button_type_lower [of "ftype f"] by blast
  fix skip assume k: "skip \<in> set skipNames"
  from not_skipped(3) [OF s] k
  show "\<not> js_includes (toLowerCase (el_name (elems w (element f)))) skip"
    and "\<not> js_includes (toLowerCase (el_id (elems w (element f)))) skip"
    unfolding list_ex_iff by blast+
next
  show "distinct (map element (detectedFields (detectFields w)))"
    by (simp add: detectFields_eq filterAndDeduplicateFields_def filter_loop_distinct)
next
  show "skipNames = [''csrf'', ''token'', ''_token'', ''authenticity_token'', ''utf8'', ''_method'',
     ''commit'', ''submit'', ''captcha'', ''recaptcha'', ''g-recaptcha-response'']"
    by (rule skipNames_def)
qed

lemma extract_try_Throws:
  "(extract_try n w = Throws) = (el_id (elems w n) \<noteq> [] \<and> label_for (around w n) = Throws)"
proof -
  have l: "(findFieldLabel e a = Throws) = (el_id e \<noteq> [] \<and> label_for a = Throws)" for e a
    by (simp add: findFieldLabel_def split: query.splits option.splits)
  have r: "isFieldRequired e a = Throws \<Longrightarrow> findFieldLabel e a = Throws" for e a
    by (simp add: isFieldRequired_def split: if_splits query.splits)
  show ?thesis
    using l [of "elems w n" "around w n"] r [of "elems w n" "around w n"]
    by (auto simp: extract_try_def Let_def split: query.splits)
qed

text \<open>
  C8. \<open>detectFields\<close> always returns a catalog. The only exception that the extraction
  of an element's metadata can raise, the one of the label query (which the required
  flag repeats), ends in the \<open>catch\<close> of \<open>extractFieldInfo\<close>: it is logged as a warning,
  once for each visit of such an element, and the element adds nothing to the list. The
  list is what the other elements add, in the order of the visit, before duplicates and
  buttons are removed; so every visited element whose own extraction succeeds and gives
  no button type is in the catalog, whatever happened to the elements before it.
\<close>

theorem scan_survives_extraction_errors:
  "detectedFields (detectFields w) =
     filterAndDeduplicateFields (List.map_filter (extracted w) (scan_order w)) \<and>
   warnings (detectFields w) = filter (extraction_fails w) (scan_order w) \<and>
   (\<forall>n \<in> set (scan_order w). \<forall>f.
      extracted w n = Some f \<and>
      toLowerCase (ftype f) \<notin> set [''submit'', ''button'', ''reset'', ''image''] \<longrightarrow>
      n \<in> element ` set (detectedFields (detectFields w))) \<and>
   (\<forall>n. extraction_fails w n =
      (\<not> shouldSkipField (elems w n) \<and> el_id (elems w n) \<noteq> [] \<and>
       label_for (around w n) = Throws)) \<and>
   (\<forall>n. extraction_fails w n \<longrightarrow> extracted w n = None)"
proof (intro conjI ballI allI impI)
  show "detectedFields (detectFields w) =
     filterAndDeduplicateFields (List.map_filter (extracted w) (scan_order w))"
    by (simp add: detectFields_eq)
  show "warnings (detectFields w) = filter (extraction_fails w) (scan_order w)"
    by (simp add: detectFields_eq)
next
  fix n f
  assume n: "n \<in> set (scan_order w)"
    and f: "extracted w n = Some f \<and>
      toLowerCase (ftype f) \<notin> set [''submit'', ''button'', ''reset'', ''image'']"
  let ?all = "List.map_filter (extracted w) (scan_order w)"
  have "f \<in> set ?all" using n f by (auto simp: List.map_filter_def intro!: image_eqI [of _ _ n])
  then have "f \<in> set ?all \<union> set []" by simp
  from filter_loop_keeps [OF _ _ this, of "{}"] f
  have "element f \<in> element ` set (filter_loop ?all {} [])" by simp
  moreover have "element f = n" using extracted_element f by blast
  ultimately show "n \<in> element ` set (detectedFields (detectFields w))"
    by (simp add: detectFields_eq filterAndDeduplicateFields_def)
next
  fix n
  show "extraction_fails w n =
      (\<not> shouldSkipField (elems w n) \<and> el_id (elems w n) \<noteq> [] \<and>
       label_for (around w n) = Throws)"
    by (simp add: extraction_fails_def extract_try_Throws)
next
  fix n assume "extraction_fails w n"
  then show "extracted w n = None"
    by (simp add: extraction_fails_def extracted_def)
qed

subsection \<open>An example page\<close>

lemma signup_catalog:
  "detectedFields (detectFields signup_page) =
     [\<lparr>element = 10, label = ''Full name'', ftype = ''text'', required = False,
       placeholder = None, maxLength = None\<rparr>,
      \<lparr>element = 15, label = ''Email Address'', ftype = ''email'', required = False,
       placeholder = Some ''Email Address *'', maxLength = None\<rparr>]"
  by code_simp

lemma signup_warnings: "warnings (detectFields signup_page) = [20]"
  by code_simp

lemma signup_order: "scan_order signup_page = [10, 11, 12, 13, 20, 10, 14, 15]"
  by code_simp

lemma signup_elements:
  "prop_type (elems signup_page 11) = ''hidden''"
  "el_disabled (elems signup_page 14)"
  "toLowerCase (el_name (elems signup_page 12)) = ''csrf_token''"
  "el_id (elems signup_page 20) \<noteq> []"
  "label_for (around signup_page 20) = Throws"
  "\<not> shouldSkipField (elems signup_page 20)"
  by code_simp+

theorem scan_excludes_ineligible_witness:
  "map element (detectedFields (detectFields signup_page)) = [10, 15] \<and>
   prop_type (elems signup_page 10) \<noteq> ''hidden'' \<and>
   \<not> el_disabled (elems signup_page 15) \<and>
   \<not> js_includes (toLowerCase (el_name (elems signup_page 10))) ''token'' \<and>
   distinct (map element (detectedFields (detectFields signup_page)))"
proof -
  let ?f = "\<lparr>element = 10, label = ''Full name'', ftype = ''text'', required = False,
       placeholder = None, maxLength = None\<rparr>"
  let ?g = "\<lparr>element = 15, label = ''Email Address'', ftype = ''email'', required = False,
       placeholder = Some ''Email Address *'', maxLength = None\<rparr>"
  have f: "?f \<in> set (detectedFields (detectFields signup_page))"
    and g: "?g \<in> set (detectedFields (detectFields signup_page))"
    by (simp_all add: signup_catalog)
  have t: "''token'' \<in> set skipNames" by (simp add: skipNames_def)
  from scan_excludes_ineligible [of signup_page] f g t
  have "prop_type (elems signup_page (element ?f)) \<noteq> ''hidden''"
    "\<not> el_disabled (elems signup_page (element ?g))"
    "\<not> js_includes (toLowerCase (el_name (elems signup_page (element ?f)))) ''token''"
    "distinct (map element (detectedFields (detectFields signup_page)))"
    by blast+
  then show ?thesis by (simp add: signup_catalog)
qed

theorem scan_survives_extraction_errors_witness:
  "extraction_fails signup_page 20 \<and>
   warnings (detectFields signup_page) = [20] \<and>
   map element (detectedFields (detectFields signup_page)) = [10, 15] \<and>
   scan_order signup_page = [10, 11, 12, 13, 20, 10, 14, 15]"
proof -
  from scan_survives_extraction_errors [of signup_page]
  have "extraction_fails signup_page 20 =
      (\<not> shouldSkipField (elems signup_page 20) \<and> el_id (elems signup_page 20) \<noteq> [] \<and>
       label_for (around signup_page 20) = Throws)"
    by blast
  then have "extraction_fails signup_page 20" by (simp add: signup_elements)
  then show ?thesis by (simp add: signup_warnings signup_catalog signup_order)
qed


section \<open>The matcher and its specification\<close>










subsection \<open>Examples of the three steps\<close>






lemma score_birth:
  "calculateMatchScore (extractKeywords (normalizeLabel ''birth day (date)''))
     (extractKeywords (normalizeLabel ''Date of your Birth'')) = 2 / 3"
  by code_simp


end
